theory Spec2Isabelle
  imports Complex_Main "HOL-Library.AList" "HOL-Library.List_Lexorder"
begin

section \<open>Strings of the JavaScript runtime\<close>

text \<open>
  A JavaScript string is a sequence of UTF-16 code units. A code unit is modelled as a
  natural number, a string as a list of them, so that every string the program can
  receive is a value of the model. ASCII literals are written \<open>lit ''abc''\<close>.
\<close>

type_synonym code_unit = nat
type_synonym jsstring = "code_unit list"

abbreviation cu :: "char \<Rightarrow> code_unit" where
  "cu c \<equiv> of_char c"

abbreviation lit :: "string \<Rightarrow> jsstring" where
  "lit s \<equiv> map of_char s"

text \<open>
  \<open>String.prototype.trim\<close> removes the code units of the ECMAScript productions
  WhiteSpace and LineTerminator from both ends: TAB, LF, VT, FF, CR, SP, NBSP, U+1680,
  U+2000 to U+200A, U+2028, U+2029, U+202F, U+205F, U+3000 and U+FEFF.
\<close>

definition isWhiteSpace :: "code_unit \<Rightarrow> bool" where
  "isWhiteSpace c \<longleftrightarrow>
     c = 9 \<or> c = 10 \<or> c = 11 \<or> c = 12 \<or> c = 13 \<or> c = 32 \<or> c = 160 \<or> c = 5760 \<or>
     (8192 \<le> c \<and> c \<le> 8202) \<or> c = 8232 \<or> c = 8233 \<or> c = 8239 \<or> c = 8287 \<or>
     c = 12288 \<or> c = 65279"

definition trim :: "jsstring \<Rightarrow> jsstring" where
  "trim s = rev (dropWhile isWhiteSpace (rev (dropWhile isWhiteSpace s)))"

text \<open>\<open>String.prototype.includes\<close> with a one-unit needle, and \<open>startsWith\<close>.\<close>

definition includesUnit :: "jsstring \<Rightarrow> code_unit \<Rightarrow> bool" where
  "includesUnit s c \<longleftrightarrow> c \<in> set s"

definition startsWith :: "jsstring \<Rightarrow> jsstring \<Rightarrow> bool" where
  "startsWith s p \<longleftrightarrow> take (length p) s = p"

definition endsWith :: "jsstring \<Rightarrow> jsstring \<Rightarrow> bool" where
  "endsWith s p \<longleftrightarrow> length p \<le> length s \<and> drop (length s - length p) s = p"

text \<open>\<open>s.includes(p)\<close> for a longer needle: some suffix of \<open>s\<close> starts with \<open>p\<close>.\<close>

fun includesStr :: "jsstring \<Rightarrow> jsstring \<Rightarrow> bool" where
  "includesStr [] p = (p = [])"
| "includesStr (c # cs) p = (startsWith (c # cs) p \<or> includesStr cs p)"

text \<open>
  \<open>s.split(sep)\<close> with a one-unit separator never returns the empty array: the empty
  string splits into one empty piece. \<open>join\<close> is \<open>Array.prototype.join\<close>.
\<close>

fun split :: "code_unit \<Rightarrow> jsstring \<Rightarrow> jsstring list" where
  "split sep [] = [[]]"
| "split sep (c # cs) =
     (if c = sep then [] # split sep cs
      else (let r = split sep cs in (c # hd r) # tl r))"

fun join :: "code_unit \<Rightarrow> jsstring list \<Rightarrow> jsstring" where
  "join sep [] = []"
| "join sep [s] = s"
| "join sep (s # t # ss) = s @ sep # join sep (t # ss)"

definition isAsciiLetter :: "code_unit \<Rightarrow> bool" where
  "isAsciiLetter c \<longleftrightarrow> (65 \<le> c \<and> c \<le> 90) \<or> (97 \<le> c \<and> c \<le> 122)"

definition isDigit :: "code_unit \<Rightarrow> bool" where
  "isDigit c \<longleftrightarrow> 48 \<le> c \<and> c \<le> 57"

section \<open>The path module of the runtime (POSIX and the two \<open>isAbsolute\<close> tests)\<close>

text \<open>
  The functions of \<open>node:path\<close> that \<open>comfyui-path.ts\<close> calls, by what they compute.
  \<open>normalizeString\<close> walks the segments between slashes with a stack: an empty segment
  and \<open>.\<close> are dropped, \<open>..\<close> removes the segment on top of the stack unless the stack
  is empty or its top is itself \<open>..\<close>, in which case \<open>..\<close> is kept when the path is
  allowed to climb above its start and dropped otherwise. The stack is kept reversed.
\<close>

fun normalizeSegs :: "bool \<Rightarrow> jsstring list \<Rightarrow> jsstring list \<Rightarrow> jsstring list" where
  "normalizeSegs allowAboveRoot stack [] = rev stack"
| "normalizeSegs allowAboveRoot stack (seg # segs) =
     (if seg = [] \<or> seg = lit ''.'' then normalizeSegs allowAboveRoot stack segs
      else if seg = lit ''..'' then
        (case stack of
           seg0 # below \<Rightarrow>
             if seg0 \<noteq> lit ''..'' then normalizeSegs allowAboveRoot below segs
             else if allowAboveRoot then normalizeSegs allowAboveRoot (seg # stack) segs
             else normalizeSegs allowAboveRoot stack segs
         | [] \<Rightarrow>
             if allowAboveRoot then normalizeSegs allowAboveRoot [seg] segs
             else normalizeSegs allowAboveRoot [] segs)
      else normalizeSegs allowAboveRoot (seg # stack) segs)"

definition normalizeString :: "jsstring \<Rightarrow> bool \<Rightarrow> jsstring" where
  "normalizeString p allowAboveRoot =
     join (cu CHR ''/'') (normalizeSegs allowAboveRoot [] (split (cu CHR ''/'') p))"

definition posix_isAbsolute :: "jsstring \<Rightarrow> bool" where
  "posix_isAbsolute p \<longleftrightarrow> (case p of [] \<Rightarrow> False | c # _ \<Rightarrow> c = cu CHR ''/'')"

definition isPathSeparator :: "code_unit \<Rightarrow> bool" where
  "isPathSeparator c \<longleftrightarrow> c = cu CHR ''/'' \<or> c = cu (CHR 0x5C)"

text \<open>
  \<open>path.win32.isAbsolute\<close>: a leading separator, or a device root: a letter, a colon
  and a separator.
\<close>

definition win32_isAbsolute :: "jsstring \<Rightarrow> bool" where
  "win32_isAbsolute p \<longleftrightarrow>
     (case p of
        [] \<Rightarrow> False
      | c # rest \<Rightarrow>
          isPathSeparator c \<or>
          (case rest of
             d # e # _ \<Rightarrow> isAsciiLetter c \<and> d = cu CHR '':'' \<and> isPathSeparator e
           | _ \<Rightarrow> False))"

definition posix_normalize :: "jsstring \<Rightarrow> jsstring" where
  "posix_normalize p =
     (if p = [] then lit ''.''
      else
        let isAbsolute = posix_isAbsolute p;
            trailingSeparator = (last p = cu CHR ''/'');
            q = normalizeString p (\<not> isAbsolute)
        in if q = [] then
             (if isAbsolute then lit ''/''
              else if trailingSeparator then lit ''./'' else lit ''.'')
           else
             let q' = (if trailingSeparator then q @ lit ''/'' else q)
             in if isAbsolute then cu CHR ''/'' # q' else q')"

text \<open>
  \<open>path.posix.resolve\<close> takes its arguments from the right until the path built so far
  is absolute, skipping empty ones, and falls back on the working directory \<open>cwd\<close> of
  the process, which the model takes as a parameter.
\<close>

fun resolveArgs :: "jsstring list \<Rightarrow> jsstring \<Rightarrow> bool \<Rightarrow> jsstring \<times> bool" where
  "resolveArgs [] resolvedPath resolvedAbsolute = (resolvedPath, resolvedAbsolute)"
| "resolveArgs (p # ps) resolvedPath resolvedAbsolute =
     (if resolvedAbsolute then (resolvedPath, resolvedAbsolute)
      else if p = [] then resolveArgs ps resolvedPath resolvedAbsolute
      else resolveArgs ps (p @ cu CHR ''/'' # resolvedPath) (posix_isAbsolute p))"

definition posix_resolve :: "jsstring \<Rightarrow> jsstring list \<Rightarrow> jsstring" where
  "posix_resolve cwd args =
     (let (resolvedPath, resolvedAbsolute) = resolveArgs (rev args @ [cwd]) [] False;
          q = normalizeString resolvedPath (\<not> resolvedAbsolute)
      in if resolvedAbsolute then cu CHR ''/'' # q
         else if q \<noteq> [] then q else lit ''.'')"

section \<open>comfyui-path.ts\<close>

text \<open>
  Every \<open>throw new Error(message)\<close> of the module is a value of \<open>rejection\<close>:
  \<open>MustNotBeEmpty field\<close> is "\<open>field\<close> must not be empty", the others stand for the
  messages of \<open>assertAllowedRunDir\<close>, \<open>assertSafeRelativeImagePath\<close> and
  \<open>resolvePathUnderRoot\<close>, in the order of the source.
\<close>

datatype rejection =
    MustNotBeEmpty string
  | InvalidRunDirFormat
  | NotInAllowlist
  | NullByte
  | EncodedChars
  | Backslash
  | Absolute
  | DriveLetter
  | EmptySegment
  | DotSegment
  | Escapes
  | RootEscape

definition assertNonEmptyTrimmed :: "jsstring \<Rightarrow> string \<Rightarrow> rejection + jsstring" where
  "assertNonEmptyTrimmed v fieldName =
     (let trimmed = trim v
      in if length trimmed = 0 then Inl (MustNotBeEmpty fieldName) else Inr trimmed)"

text \<open>\<open>WINDOWS_DRIVE_LETTER_PREFIX = /^[a-zA-Z]:/\<close>.\<close>

definition WINDOWS_DRIVE_LETTER_PREFIX :: "jsstring \<Rightarrow> bool" where
  "WINDOWS_DRIVE_LETTER_PREFIX s \<longleftrightarrow>
     (case s of c # d # _ \<Rightarrow> isAsciiLetter c \<and> d = cu CHR '':'' | _ \<Rightarrow> False)"

definition assertSafeRelativeImagePath :: "jsstring \<Rightarrow> rejection + jsstring" where
  "assertSafeRelativeImagePath imagePath =
     (case assertNonEmptyTrimmed imagePath ''imagePath'' of
        Inl e \<Rightarrow> Inl e
      | Inr candidate \<Rightarrow>
          if includesUnit candidate 0 then Inl NullByte
          else if includesUnit candidate (cu CHR ''%'') then Inl EncodedChars
          else if includesUnit candidate (cu (CHR 0x5C)) then Inl Backslash
          else if posix_isAbsolute candidate \<or> win32_isAbsolute candidate then Inl Absolute
          else if WINDOWS_DRIVE_LETTER_PREFIX candidate then Inl DriveLetter
          else
            let segments = split (cu CHR ''/'') candidate
            in if list_ex (\<lambda>segment. length segment = 0) segments then Inl EmptySegment
               else if lit ''.'' \<in> set segments \<or> lit ''..'' \<in> set segments
                 then Inl DotSegment
               else
                 let normalized = posix_normalize candidate
                 in if normalized = lit ''.'' \<or> startsWith normalized (lit ''../'')
                       \<or> includesStr normalized (lit ''/../'')
                    then Inl Escapes
                    else Inr normalized)"

text \<open>
  The model is of a POSIX process (\<open>process.platform\<close> is not \<open>win32\<close>): \<open>path\<close> is
  \<open>path.posix\<close>, \<open>path.sep\<close> is the slash and \<open>toComparablePath\<close> returns its argument.
\<close>

definition path_sep :: code_unit where
  "path_sep = cu CHR ''/''"

definition toComparablePath :: "jsstring \<Rightarrow> jsstring" where
  "toComparablePath v = v"

definition resolvePathUnderRoot :: "jsstring \<Rightarrow> jsstring \<Rightarrow> jsstring \<Rightarrow> rejection + jsstring" where
  "resolvePathUnderRoot cwd rootPath relPath =
     (case assertNonEmptyTrimmed rootPath ''root'' of
        Inl e \<Rightarrow> Inl e
      | Inr safeRoot \<Rightarrow>
     (case assertSafeRelativeImagePath relPath of
        Inl e \<Rightarrow> Inl e
      | Inr safeRelPath \<Rightarrow>
          let resolvedRoot = posix_resolve cwd [safeRoot];
              resolvedTarget = posix_resolve cwd [resolvedRoot, safeRelPath];
              comparableRoot = toComparablePath resolvedRoot;
              comparableTarget = toComparablePath resolvedTarget;
              rootWithSep = (if endsWith comparableRoot [path_sep] then comparableRoot
                             else comparableRoot @ [path_sep])
          in if comparableTarget \<noteq> comparableRoot \<and> \<not> startsWith comparableTarget rootWithSep
             then Inl RootEscape
             else Inr resolvedTarget))"

text \<open>
  Two values of the body of \<open>resolvePathUnderRoot\<close> by name: \<open>comparableRoot\<close>, and the
  test under which the guard does not throw, with the two cases of \<open>rootWithSep\<close>
  written out.
\<close>

definition comparableRoot :: "jsstring \<Rightarrow> jsstring \<Rightarrow> jsstring" where
  "comparableRoot cwd rootPath = toComparablePath (posix_resolve cwd [trim rootPath])"

definition confined :: "jsstring \<Rightarrow> jsstring \<Rightarrow> bool" where
  "confined croot ctarget \<longleftrightarrow>
     ctarget = croot \<or>
     startsWith ctarget (croot @ [path_sep]) \<or>
     (endsWith croot [path_sep] \<and> startsWith ctarget croot)"

section \<open>comfyui-types.ts\<close>

text \<open>
  \<open>CellStatus\<close> is the union of the four string literals \<open>success\<close>, \<open>failed\<close>,
  \<open>skipped\<close> and \<open>missing\<close>; a value of it is the string itself.
\<close>

type_synonym CellStatus = jsstring

text \<open>\<open>RUN_DIR_REGEX = /^run-\d{8}T\d{6}Z$/\<close>, twenty code units in all.\<close>

definition isValidRunDir :: "jsstring \<Rightarrow> bool" where
  "isValidRunDir runDir \<longleftrightarrow>
     length runDir = 20 \<and>
     take 4 runDir = lit ''run-'' \<and>
     list_all isDigit (take 8 (drop 4 runDir)) \<and>
     take 1 (drop 12 runDir) = lit ''T'' \<and>
     list_all isDigit (take 6 (drop 13 runDir)) \<and>
     drop 19 runDir = lit ''Z''"

definition isCellStatus :: "jsstring \<Rightarrow> bool" where
  "isCellStatus status \<longleftrightarrow>
     status \<in> set [lit ''success'', lit ''failed'', lit ''skipped'', lit ''missing'']"

definition assertAllowedRunDir :: "jsstring \<Rightarrow> jsstring set \<Rightarrow> rejection + jsstring" where
  "assertAllowedRunDir runDir allowed =
     (case assertNonEmptyTrimmed runDir ''runDir'' of
        Inl e \<Rightarrow> Inl e
      | Inr candidate \<Rightarrow>
          if \<not> isValidRunDir candidate then Inl InvalidRunDirFormat
          else if candidate \<notin> allowed then Inl NotInAllowlist
          else Inr candidate)"

section \<open>Values read from storage\<close>

text \<open>
  A number of the runtime is a finite value, an infinity or NaN; the finite ones are
  rationals (both zeros are \<open>Finite 0\<close>). A value produced by \<open>JSON.parse\<close> is a \<open>json\<close>;
  an object is the list of its own properties, each key once, and reading a property
  that is absent gives \<open>undefined\<close>, which is \<open>None\<close> here.
\<close>

datatype number = Finite rat | PosInfinity | NegInfinity | NaN

datatype json =
    JNull
  | JBool bool
  | JNumber number
  | JString jsstring
  | JArray "json list"
  | JObject "(jsstring \<times> json) list"

type_synonym JsonObject = "(jsstring \<times> json) list"

definition getProp :: "JsonObject \<Rightarrow> string \<Rightarrow> json option" where
  "getProp record key = map_of record (lit key)"

text \<open>
  The outcome of a call into \<open>node:fs/promises\<close>: the value, an error whose code is
  \<open>ENOENT\<close>, or any other error. \<open>Dirent\<close> is an entry of \<open>readdir\<close> with file types.
\<close>

datatype 'a io = Returned 'a | ENOENT | Failed

record Dirent =
  name :: jsstring
  isDirectory :: bool

record Stats =
  isFile :: bool

record filesystem =
  readdir :: "jsstring \<Rightarrow> Dirent list io"
  stat :: "jsstring \<Rightarrow> Stats io"
  readFile :: "jsstring \<Rightarrow> jsstring io"

text \<open>What a function of \<open>comfyui-fs.ts\<close> throws.\<close>

datatype failure =
    NoSuchFile
  | StorageFailure
  | InvalidRunJson
  | MissingRunIdOrCreatedAt

definition rethrow :: "'a io \<Rightarrow> failure + 'a" where
  "rethrow r = (case r of Returned v \<Rightarrow> Inr v | ENOENT \<Rightarrow> Inl NoSuchFile | Failed \<Rightarrow> Inl StorageFailure)"

section \<open>comfyui-fs.ts: coercions\<close>

definition RUN_JSON_FILENAME :: jsstring where
  "RUN_JSON_FILENAME = lit ''run.json''"

definition METADATA_JSONL_FILENAME :: jsstring where
  "METADATA_JSONL_FILENAME = lit ''metadata.jsonl''"

definition posix_join :: "jsstring list \<Rightarrow> jsstring" where
  "posix_join args =
     (let nonEmpty = filter (\<lambda>arg. length arg > 0) args
      in if nonEmpty = [] then lit ''.''
         else posix_normalize (join (cu CHR ''/'') nonEmpty))"

text \<open>
  \<open>JSON.parse\<close> is a parameter \<open>parse\<close> of every function that calls it; \<open>None\<close> is its
  SyntaxError.
\<close>

definition parseJsonObject :: "(jsstring \<Rightarrow> json option) \<Rightarrow> jsstring \<Rightarrow> JsonObject option" where
  "parseJsonObject parse raw =
     (case parse raw of Some (JObject record) \<Rightarrow> Some record | _ \<Rightarrow> None)"

definition toNullableString :: "json option \<Rightarrow> jsstring option" where
  "toNullableString v = (case v of Some (JString s) \<Rightarrow> Some s | _ \<Rightarrow> None)"

definition toStringOrEmpty :: "json option \<Rightarrow> jsstring" where
  "toStringOrEmpty v = (case v of Some (JString s) \<Rightarrow> s | _ \<Rightarrow> [])"

definition toNullableNumber :: "json option \<Rightarrow> rat option" where
  "toNullableNumber v = (case v of Some (JNumber (Finite q)) \<Rightarrow> Some q | _ \<Rightarrow> None)"

definition toNumberOrZero :: "json option \<Rightarrow> rat" where
  "toNumberOrZero v = (case toNullableNumber v of Some q \<Rightarrow> q | None \<Rightarrow> 0)"

definition isInteger :: "rat \<Rightarrow> bool" where
  "isInteger q \<longleftrightarrow> of_int \<lfloor>q\<rfloor> = q"

definition toNullableInteger :: "json option \<Rightarrow> int option" where
  "toNullableInteger v =
     (case v of
        Some (JNumber (Finite q)) \<Rightarrow> if isInteger q then Some \<lfloor>q\<rfloor> else None
      | _ \<Rightarrow> None)"

definition toIntegerArray :: "json option \<Rightarrow> int list" where
  "toIntegerArray v =
     (case v of
        Some (JArray items) \<Rightarrow> List.map_filter (\<lambda>item. toNullableInteger (Some item)) items
      | _ \<Rightarrow> [])"

definition toStringArray :: "json option \<Rightarrow> jsstring list option" where
  "toStringArray v =
     (case v of
        Some (JArray items) \<Rightarrow>
          let values = List.map_filter
                (\<lambda>item. case item of JString s \<Rightarrow> if length s > 0 then Some s else None
                             | _ \<Rightarrow> None) items
          in if length values > 0 then Some values else None
      | _ \<Rightarrow> None)"

text \<open>
  \<open>GridCellKey\<close> is the template \<open>`${xIndex},${yIndex}`\<close>. The Number-to-string
  conversion prints two different integers that are doubles differently and never prints
  a comma, so two pairs of indexes have the same key exactly when they are equal, and the
  key is modelled as the pair.
\<close>

type_synonym GridCellKey = "int \<times> int"

definition toCellKey :: "int \<Rightarrow> int \<Rightarrow> GridCellKey" where
  "toCellKey xIndex yIndex = (xIndex, yIndex)"

definition normalizeCellStatus :: "json option \<Rightarrow> CellStatus" where
  "normalizeCellStatus v =
     (case v of
        Some (JString s) \<Rightarrow> if isCellStatus s then s else lit ''failed''
      | _ \<Rightarrow> lit ''failed'')"

section \<open>comfyui-fs.ts: cells of the event log\<close>

text \<open>
  The interfaces of \<open>comfyui-types.ts\<close>. A field that may be \<open>null\<close>, and an optional
  field of \<open>XFields\<close>, is an \<open>option\<close>. Fields of \<open>GenerationParams\<close> and
  \<open>GenerationOverrides\<close> carry a prefix, since a field name is declared once.
\<close>

record XFields =
  quality :: "jsstring option"
  rating :: "jsstring option"
  gender :: "jsstring option"
  characters :: "jsstring option"
  series :: "jsstring option"
  general :: "jsstring option"

record GenerationParams =
  gp_seed :: "rat option"
  gp_negative_prompt :: "jsstring option"
  gp_width :: "rat option"
  gp_height :: "rat option"
  gp_batch_size :: "rat option"
  gp_steps :: "rat option"
  gp_cfg :: "rat option"
  gp_denoise :: "rat option"
  gp_sampler_name :: "jsstring option"
  gp_scheduler :: "jsstring option"

record GridCell =
  status :: CellStatus
  x_index :: int
  y_index :: int
  x_fields :: XFields
  y_value :: "jsstring option"
  positive_prompt :: "jsstring option"
  prompt_hash :: "jsstring option"
  seed :: "rat option"
  generation_params :: "GenerationParams option"
  workflow_hash :: "jsstring option"
  comfyui_prompt_id :: "jsstring option"
  local_image_path :: "jsstring option"
  local_image_paths :: "jsstring list option"
  error :: json
  started_at :: "jsstring option"
  finished_at :: "jsstring option"
  elapsed_ms :: "rat option"

text \<open>The body of the loop of \<open>normalizeXFields\<close>: a key is set when its item is a string.\<close>

definition stringField :: "json option \<Rightarrow> jsstring option" where
  "stringField item = (case item of Some (JString s) \<Rightarrow> Some s | _ \<Rightarrow> None)"

definition normalizeXFields :: "json option \<Rightarrow> XFields" where
  "normalizeXFields v =
     (case v of
        Some (JObject r) \<Rightarrow>
          \<lparr> quality = stringField (getProp r ''quality''),
            rating = stringField (getProp r ''rating''),
            gender = stringField (getProp r ''gender''),
            characters = stringField (getProp r ''characters''),
            series = stringField (getProp r ''series''),
            general = stringField (getProp r ''general'') \<rparr>
      | _ \<Rightarrow>
          \<lparr> quality = None, rating = None, gender = None, characters = None,
            series = None, general = None \<rparr>)"

definition normalizeGenerationParams :: "json option \<Rightarrow> GenerationParams option" where
  "normalizeGenerationParams v =
     (case v of
        Some (JObject r) \<Rightarrow>
          Some \<lparr> gp_seed = toNullableNumber (getProp r ''seed''),
                 gp_negative_prompt = toNullableString (getProp r ''negative_prompt''),
                 gp_width = toNullableNumber (getProp r ''width''),
                 gp_height = toNullableNumber (getProp r ''height''),
                 gp_batch_size = toNullableNumber (getProp r ''batch_size''),
                 gp_steps = toNullableNumber (getProp r ''steps''),
                 gp_cfg = toNullableNumber (getProp r ''cfg''),
                 gp_denoise = toNullableNumber (getProp r ''denoise''),
                 gp_sampler_name = toNullableString (getProp r ''sampler_name''),
                 gp_scheduler = toNullableString (getProp r ''scheduler'') \<rparr>
      | _ \<Rightarrow> None)"

text \<open>
  In \<open>normalizeGridCell\<close>, \<open>localImagePath ? [localImagePath] : null\<close> tests the string
  for being non-empty, \<open>a ?? b\<close> takes \<open>b\<close> when \<open>a\<close> is \<open>null\<close> or \<open>undefined\<close>, and the
  array of \<open>toStringArray\<close> is never empty, so that its element 0 exists.
\<close>

definition normalizeGridCell :: "JsonObject \<Rightarrow> GridCell option" where
  "normalizeGridCell r =
     (case (toNullableInteger (getProp r ''x_index''), toNullableInteger (getProp r ''y_index'')) of
        (Some xIndex, Some yIndex) \<Rightarrow>
          let localImagePath = toNullableString (getProp r ''local_image_path'');
              imagePaths = toStringArray (getProp r ''local_image_paths'');
              mergedImagePaths =
                (case imagePaths of
                   Some ps \<Rightarrow> Some ps
                 | None \<Rightarrow>
                     (case localImagePath of
                        Some p \<Rightarrow> if length p > 0 then Some [p] else None
                      | None \<Rightarrow> None))
          in Some
            \<lparr> status = normalizeCellStatus (getProp r ''status''),
              x_index = xIndex,
              y_index = yIndex,
              x_fields = normalizeXFields (getProp r ''x_fields''),
              y_value = toNullableString (getProp r ''y_value''),
              positive_prompt = toNullableString (getProp r ''positive_prompt''),
              prompt_hash = toNullableString (getProp r ''prompt_hash''),
              seed = toNullableNumber (getProp r ''seed''),
              generation_params = normalizeGenerationParams (getProp r ''generation_params''),
              workflow_hash = toNullableString (getProp r ''workflow_hash''),
              comfyui_prompt_id = toNullableString (getProp r ''comfyui_prompt_id''),
              local_image_path =
                (case localImagePath of
                   Some p \<Rightarrow> Some p
                 | None \<Rightarrow> (case mergedImagePaths of Some (p # _) \<Rightarrow> Some p | _ \<Rightarrow> None)),
              local_image_paths = mergedImagePaths,
              error = (case getProp r ''error'' of Some e \<Rightarrow> e | None \<Rightarrow> JNull),
              started_at = toNullableString (getProp r ''started_at''),
              finished_at = toNullableString (getProp r ''finished_at''),
              elapsed_ms = toNullableNumber (getProp r ''elapsed_ms'') \<rparr>
      | _ \<Rightarrow> None)"

definition createMissingCell :: "int \<Rightarrow> int \<Rightarrow> GridCell" where
  "createMissingCell xIndex yIndex =
     \<lparr> status = lit ''missing'',
       x_index = xIndex,
       y_index = yIndex,
       x_fields = \<lparr> quality = None, rating = None, gender = None, characters = None,
                    series = None, general = None \<rparr>,
       y_value = None,
       positive_prompt = None,
       prompt_hash = None,
       seed = None,
       generation_params = None,
       workflow_hash = None,
       comfyui_prompt_id = None,
       local_image_path = None,
       local_image_paths = None,
       error = JNull,
       started_at = None,
       finished_at = None,
       elapsed_ms = None \<rparr>"

text \<open>
  A \<open>Map\<close>, and the object \<open>Object.fromEntries\<close> makes of it, keeps its entries in the
  order in which their keys were first set (no key of the program is an array index):
  both are association lists with each key once. \<open>AList.update\<close> is \<open>Map.prototype.set\<close>
  and the assignment \<open>object[key] = value\<close>, \<open>map_of\<close> is \<open>get\<close> and \<open>object[key]\<close>.
\<close>

type_synonym 'k cells_by = "('k \<times> GridCell) list"

text \<open>
  \<open>raw.split(/\r?\n/)\<close>: a line ends at LF, and a CR just before that LF belongs to the
  line break.
\<close>

fun splitLines :: "jsstring \<Rightarrow> jsstring list" where
  "splitLines [] = [[]]"
| "splitLines [c] = (if c = 10 then [[], []] else [[c]])"
| "splitLines (c # d # ds) =
     (if c = 10 then [] # splitLines (d # ds)
      else if c = 13 \<and> d = 10 then [] # splitLines ds
      else (let r = splitLines (d # ds) in (c # hd r) # tl r))"

text \<open>The body of the loop of \<open>parseMetadataJsonl\<close> up to the cell of a line, if any.\<close>

definition parseLine :: "(jsstring \<Rightarrow> json option) \<Rightarrow> jsstring \<Rightarrow> GridCell option" where
  "parseLine parse line =
     (let trimmed = trim line
      in if length trimmed = 0 then None
         else (case parseJsonObject parse trimmed of
                 None \<Rightarrow> None
               | Some parsed \<Rightarrow> normalizeGridCell parsed))"

fun parseLines :: "(jsstring \<Rightarrow> json option) \<Rightarrow> GridCellKey cells_by \<Rightarrow> jsstring list
    \<Rightarrow> GridCellKey cells_by" where
  "parseLines parse cells [] = cells"
| "parseLines parse cells (line # lines) =
     (case parseLine parse line of
        None \<Rightarrow> parseLines parse cells lines
      | Some cell \<Rightarrow>
          parseLines parse
            (AList.update (toCellKey (x_index cell) (y_index cell)) cell cells) lines)"

definition parseMetadataJsonl ::
    "filesystem \<Rightarrow> (jsstring \<Rightarrow> json option) \<Rightarrow> jsstring \<Rightarrow> jsstring
     \<Rightarrow> failure + GridCellKey cells_by" where
  "parseMetadataJsonl fs parse runDir outputsRoot =
     (let metadataPath = posix_join [outputsRoot, runDir, METADATA_JSONL_FILENAME]
      in case readFile fs metadataPath of
           ENOENT \<Rightarrow> Inr []
         | Failed \<Rightarrow> Inl StorageFailure
         | Returned raw \<Rightarrow> Inr (parseLines parse [] (splitLines raw)))"

section \<open>comfyui-fs.ts: the run descriptor\<close>

record Selection =
  x_indexes :: "int list"
  y_indexes :: "int list"
  x_count :: int
  y_count :: int
  total_cells :: int
  x_limit :: "rat option"
  y_limit :: "rat option"
  x_indexes_raw :: "jsstring option"
  y_indexes_raw :: "jsstring option"

record GenerationOverrides =
  go_negative_prompt :: "jsstring option"
  go_width :: "rat option"
  go_height :: "rat option"
  go_batch_size :: "rat option"
  go_steps :: "rat option"
  go_cfg :: "rat option"
  go_denoise :: "rat option"
  go_sampler_name :: "jsstring option"
  go_scheduler :: "jsstring option"

record RunDetail =
  run_id :: jsstring
  created_at :: jsstring
  dry_run :: bool
  run_dir :: jsstring
  x_csv_path :: jsstring
  y_csv_path :: jsstring
  x_csv_sha256 :: jsstring
  y_csv_sha256 :: jsstring
  template :: jsstring
  base_seed :: rat
  seed_strategy :: jsstring
  workflow_json_path :: jsstring
  workflow_json_sha256 :: jsstring
  workflow_status :: jsstring
  selected_ksampler_node_id :: "jsstring option"
  comfyui_base_url :: jsstring
  request_timeout_s :: rat
  job_timeout_s :: rat
  concurrency :: int
  client_id :: "jsstring option"
  selection :: Selection
  generation_overrides :: GenerationOverrides

record RunSummary =
  summary_run_id :: jsstring
  summary_created_at :: jsstring
  summary_run_dir :: jsstring
  summary_x_count :: int
  summary_y_count :: int
  summary_total_cells :: int

record GridIndex =
  xLabels :: "jsstring list"
  yLabels :: "jsstring list"
  grid_x_count :: int
  grid_y_count :: int
  cells :: "GridCellKey cells_by"

text \<open>\<open>isJsonObject(value) ? value : {}\<close>.\<close>

definition objectOrEmpty :: "json option \<Rightarrow> JsonObject" where
  "objectOrEmpty v = (case v of Some (JObject r) \<Rightarrow> r | _ \<Rightarrow> [])"

definition normalizeSelection :: "json option \<Rightarrow> Selection" where
  "normalizeSelection v =
     (let r = objectOrEmpty v;
          xIndexes = toIntegerArray (getProp r ''x_indexes'');
          yIndexes = toIntegerArray (getProp r ''y_indexes'')
      in \<lparr> x_indexes = xIndexes,
           y_indexes = yIndexes,
           x_count = (case toNullableInteger (getProp r ''x_count'') of
                        Some n \<Rightarrow> n | None \<Rightarrow> int (length xIndexes)),
           y_count = (case toNullableInteger (getProp r ''y_count'') of
                        Some n \<Rightarrow> n | None \<Rightarrow> int (length yIndexes)),
           total_cells = (case toNullableInteger (getProp r ''total_cells'') of
                            Some n \<Rightarrow> n
                          | None \<Rightarrow> int (length xIndexes) * int (length yIndexes)),
           x_limit = toNullableNumber (getProp r ''x_limit''),
           y_limit = toNullableNumber (getProp r ''y_limit''),
           x_indexes_raw = toNullableString (getProp r ''x_indexes_raw''),
           y_indexes_raw = toNullableString (getProp r ''y_indexes_raw'') \<rparr>)"

definition normalizeGenerationOverrides :: "json option \<Rightarrow> GenerationOverrides" where
  "normalizeGenerationOverrides v =
     (let r = objectOrEmpty v
      in \<lparr> go_negative_prompt = toNullableString (getProp r ''negative_prompt''),
           go_width = toNullableNumber (getProp r ''width''),
           go_height = toNullableNumber (getProp r ''height''),
           go_batch_size = toNullableNumber (getProp r ''batch_size''),
           go_steps = toNullableNumber (getProp r ''steps''),
           go_cfg = toNullableNumber (getProp r ''cfg''),
           go_denoise = toNullableNumber (getProp r ''denoise''),
           go_sampler_name = toNullableString (getProp r ''sampler_name''),
           go_scheduler = toNullableString (getProp r ''scheduler'') \<rparr>)"

text \<open>\<open>!runId\<close> holds of \<open>null\<close> and of the empty string.\<close>

definition falsy :: "jsstring option \<Rightarrow> bool" where
  "falsy v \<longleftrightarrow> (case v of None \<Rightarrow> True | Some s \<Rightarrow> s = [])"

definition normalizeRunDetail :: "JsonObject \<Rightarrow> jsstring \<Rightarrow> failure + RunDetail" where
  "normalizeRunDetail r runDir =
     (let runId = toNullableString (getProp r ''run_id'');
          createdAt = toNullableString (getProp r ''created_at'')
      in if falsy runId \<or> falsy createdAt then Inl MissingRunIdOrCreatedAt
         else Inr
           \<lparr> run_id = (case runId of Some s \<Rightarrow> s | None \<Rightarrow> []),
             created_at = (case createdAt of Some s \<Rightarrow> s | None \<Rightarrow> []),
             dry_run = (getProp r ''dry_run'' = Some (JBool True)),
             run_dir = (case toNullableString (getProp r ''run_dir'') of
                          Some d \<Rightarrow> d
                        | None \<Rightarrow> posix_join [lit ''comfyui_api_outputs'', runDir]),
             x_csv_path = toStringOrEmpty (getProp r ''x_csv_path''),
             y_csv_path = toStringOrEmpty (getProp r ''y_csv_path''),
             x_csv_sha256 = toStringOrEmpty (getProp r ''x_csv_sha256''),
             y_csv_sha256 = toStringOrEmpty (getProp r ''y_csv_sha256''),
             template = toStringOrEmpty (getProp r ''template''),
             base_seed = toNumberOrZero (getProp r ''base_seed''),
             seed_strategy = toStringOrEmpty (getProp r ''seed_strategy''),
             workflow_json_path = toStringOrEmpty (getProp r ''workflow_json_path''),
             workflow_json_sha256 = toStringOrEmpty (getProp r ''workflow_json_sha256''),
             workflow_status = toStringOrEmpty (getProp r ''workflow_status''),
             selected_ksampler_node_id =
               toNullableString (getProp r ''selected_ksampler_node_id''),
             comfyui_base_url = toStringOrEmpty (getProp r ''comfyui_base_url''),
             request_timeout_s = toNumberOrZero (getProp r ''request_timeout_s''),
             job_timeout_s = toNumberOrZero (getProp r ''job_timeout_s''),
             concurrency = (case toNullableInteger (getProp r ''concurrency'') of
                              Some n \<Rightarrow> n | None \<Rightarrow> 0),
             client_id = toNullableString (getProp r ''client_id''),
             selection = normalizeSelection (getProp r ''selection''),
             generation_overrides =
               normalizeGenerationOverrides (getProp r ''generation_overrides'') \<rparr>)"

section \<open>comfyui-fs.ts: discovery and loading\<close>

definition containsRunJson :: "filesystem \<Rightarrow> jsstring \<Rightarrow> failure + bool" where
  "containsRunJson fs runPath =
     (case stat fs (posix_join [runPath, RUN_JSON_FILENAME]) of
        Returned file \<Rightarrow> Inr (isFile file)
      | ENOENT \<Rightarrow> Inr False
      | Failed \<Rightarrow> Inl StorageFailure)"

text \<open>\<open>Promise.all\<close> rejects as soon as one of its promises does.\<close>

fun promiseAll :: "('e + 'a) list \<Rightarrow> 'e + 'a list" where
  "promiseAll [] = Inr []"
| "promiseAll (p # ps) =
     (case p of
        Inl e \<Rightarrow> Inl e
      | Inr v \<Rightarrow> (case promiseAll ps of Inl e \<Rightarrow> Inl e | Inr vs \<Rightarrow> Inr (v # vs)))"

text \<open>
  \<open>sort((left, right) => right.localeCompare(left))\<close>: descending order. The names that
  reach the sort match \<open>RUN_DIR_REGEX\<close>, so that two of them differ in digits only, on
  which \<open>localeCompare\<close> is the order of the code units.
\<close>

definition sortDescending :: "jsstring list \<Rightarrow> jsstring list" where
  "sortDescending runDirs = rev (sort runDirs)"

definition discoverRunDirs :: "filesystem \<Rightarrow> jsstring \<Rightarrow> failure + jsstring list" where
  "discoverRunDirs fs outputsRoot =
     (case readdir fs outputsRoot of
        ENOENT \<Rightarrow> Inr []
      | Failed \<Rightarrow> Inl StorageFailure
      | Returned entries \<Rightarrow>
          let candidates = filter (\<lambda>entry. isDirectory entry \<and> isValidRunDir (name entry)) entries
          in case promiseAll
                (map (\<lambda>entry.
                    let runPath = posix_join [outputsRoot, name entry]
                    in case containsRunJson fs runPath of
                         Inl e \<Rightarrow> Inl e
                       | Inr found \<Rightarrow> Inr (if \<not> found then None else Some (name entry)))
                  candidates) of
               Inl e \<Rightarrow> Inl e
             | Inr runDirs \<Rightarrow> Inr (sortDescending (List.map_filter id runDirs)))"

definition loadRunDetail ::
    "filesystem \<Rightarrow> (jsstring \<Rightarrow> json option) \<Rightarrow> jsstring \<Rightarrow> jsstring \<Rightarrow> failure + RunDetail" where
  "loadRunDetail fs parse runDir outputsRoot =
     (let runJsonPath = posix_join [outputsRoot, runDir, RUN_JSON_FILENAME]
      in case rethrow (readFile fs runJsonPath) of
           Inl e \<Rightarrow> Inl e
         | Inr raw \<Rightarrow>
             (case parseJsonObject parse raw of
                None \<Rightarrow> Inl InvalidRunJson
              | Some parsed \<Rightarrow> normalizeRunDetail parsed runDir))"

section \<open>comfyui-fs.ts: the grid\<close>

text \<open>
  The template \<open>`x${xIndex}`\<close> applies the Number-to-string conversion of the runtime to
  the index, a double. The conversion is a parameter \<open>numberToString\<close> of every function
  that builds a label. \<open>decimalString\<close> is the decimal expansion of an integer, which is
  what the conversion prints for an integer below \<open>2^53\<close> in absolute value; the
  examples apply it to such indexes only.
\<close>

fun digitsOf :: "nat \<Rightarrow> jsstring" where
  "digitsOf n = (if n < 10 then [48 + n] else digitsOf (n div 10) @ [48 + n mod 10])"

definition decimalString :: "int \<Rightarrow> jsstring" where
  "decimalString i = (if i < 0 then cu CHR ''-'' # digitsOf (nat (- i)) else digitsOf (nat i))"

definition X_FIELDS_ORDER :: "(XFields \<Rightarrow> jsstring option) list" where
  "X_FIELDS_ORDER = [quality, rating, gender, characters, series, general]"

text \<open>\<open>item?.trim()\<close> kept by \<open>filter(Boolean)\<close>: a trimmed string that is not empty.\<close>

definition trimmedTruthy :: "jsstring option \<Rightarrow> jsstring option" where
  "trimmedTruthy item =
     (case item of None \<Rightarrow> None | Some s \<Rightarrow> if trim s = [] then None else Some (trim s))"

definition formatXLabel :: "(int \<Rightarrow> jsstring) \<Rightarrow> GridCell option \<Rightarrow> int \<Rightarrow> jsstring" where
  "formatXLabel numberToString cell xIndex =
     (case cell of
        None \<Rightarrow> cu CHR ''x'' # numberToString xIndex
      | Some c \<Rightarrow>
          let values = List.map_filter (\<lambda>key. trimmedTruthy (key (x_fields c))) X_FIELDS_ORDER
          in if length values > 0 then join (cu CHR '' '') values
             else cu CHR ''x'' # numberToString xIndex)"

definition formatYLabel :: "(int \<Rightarrow> jsstring) \<Rightarrow> GridCell option \<Rightarrow> int \<Rightarrow> jsstring" where
  "formatYLabel numberToString cell yIndex =
     (case (case cell of None \<Rightarrow> None | Some c \<Rightarrow> trimmedTruthy (y_value c)) of
        Some yValue \<Rightarrow> yValue
      | None \<Rightarrow> cu CHR ''y'' # numberToString yIndex)"

text \<open>The first loop of \<open>buildGridIndex\<close>, over \<open>Object.values(cells)\<close>.\<close>

definition setIfAbsent :: "int \<Rightarrow> GridCell \<Rightarrow> int cells_by \<Rightarrow> int cells_by" where
  "setIfAbsent k cell m = (if map_of m k = None then AList.update k cell m else m)"

fun firstBy :: "GridCell list \<Rightarrow> int cells_by \<times> int cells_by \<Rightarrow> int cells_by \<times> int cells_by" where
  "firstBy [] (firstByX, firstByY) = (firstByX, firstByY)"
| "firstBy (cell # rest) (firstByX, firstByY) =
     firstBy rest (setIfAbsent (x_index cell) cell firstByX,
                   setIfAbsent (y_index cell) cell firstByY)"

text \<open>
  The nested iteration that fills \<open>gridCells\<close>: rows of \<open>yIndexes\<close>, then \<open>xIndexes\<close>. The
  value stored at a key is \<open>cells[key] ?? createMissingCell(xIndex, yIndex)\<close>.
\<close>

definition cellOrMissing :: "GridCellKey cells_by \<Rightarrow> int \<Rightarrow> int \<Rightarrow> GridCell" where
  "cellOrMissing cs xIndex yIndex =
     (case map_of cs (toCellKey xIndex yIndex) of
        Some c \<Rightarrow> c
      | None \<Rightarrow> createMissingCell xIndex yIndex)"

fun fillRow :: "GridCellKey cells_by \<Rightarrow> int \<Rightarrow> int list \<Rightarrow> GridCellKey cells_by
    \<Rightarrow> GridCellKey cells_by" where
  "fillRow cs yIndex [] gridCells = gridCells"
| "fillRow cs yIndex (xIndex # xs) gridCells =
     fillRow cs yIndex xs
       (AList.update (toCellKey xIndex yIndex) (cellOrMissing cs xIndex yIndex) gridCells)"

fun fillGrid :: "GridCellKey cells_by \<Rightarrow> int list \<Rightarrow> int list \<Rightarrow> GridCellKey cells_by
    \<Rightarrow> GridCellKey cells_by" where
  "fillGrid cs [] xIndexes gridCells = gridCells"
| "fillGrid cs (yIndex # ys) xIndexes gridCells =
     fillGrid cs ys xIndexes (fillRow cs yIndex xIndexes gridCells)"

definition buildGridIndex ::
    "(int \<Rightarrow> jsstring) \<Rightarrow> RunDetail \<Rightarrow> GridCellKey cells_by \<Rightarrow> GridIndex" where
  "buildGridIndex numberToString runDetail cs =
     (let xIndexes = x_indexes (selection runDetail);
          yIndexes = y_indexes (selection runDetail);
          (firstByX, firstByY) = firstBy (map snd cs) ([], []);
          xLabels = map (\<lambda>xIndex. formatXLabel numberToString (map_of firstByX xIndex) xIndex)
                      xIndexes;
          yLabels = map (\<lambda>yIndex. formatYLabel numberToString (map_of firstByY yIndex) yIndex)
                      yIndexes;
          gridCells = fillGrid cs yIndexes xIndexes []
      in \<lparr> xLabels = xLabels,
           yLabels = yLabels,
           grid_x_count = int (length xIndexes),
           grid_y_count = int (length yIndexes),
           cells = gridCells \<rparr>)"

definition loadRunGridIndex ::
    "(int \<Rightarrow> jsstring) \<Rightarrow> filesystem \<Rightarrow> (jsstring \<Rightarrow> json option) \<Rightarrow> jsstring \<Rightarrow> jsstring
     \<Rightarrow> failure + RunDetail \<times> GridIndex" where
  "loadRunGridIndex numberToString fs parse runDir outputsRoot =
     (case loadRunDetail fs parse runDir outputsRoot of
        Inl e \<Rightarrow> Inl e
      | Inr runDetail \<Rightarrow>
          (case parseMetadataJsonl fs parse runDir outputsRoot of
             Inl e \<Rightarrow> Inl e
           | Inr cs \<Rightarrow> Inr (runDetail, buildGridIndex numberToString runDetail cs)))"

text \<open>The summary that the loop of \<open>listRunSummaries\<close> pushes for a loaded descriptor.\<close>

definition summaryOf :: "jsstring \<Rightarrow> RunDetail \<Rightarrow> RunSummary" where
  "summaryOf runDir runDetail =
     \<lparr> summary_run_id = run_id runDetail,
       summary_created_at = created_at runDetail,
       summary_run_dir = runDir,
       summary_x_count = int (length (x_indexes (selection runDetail))),
       summary_y_count = int (length (y_indexes (selection runDetail))),
       summary_total_cells =
         int (length (x_indexes (selection runDetail))) *
         int (length (y_indexes (selection runDetail))) \<rparr>"

text \<open>
  The loop itself: \<open>try { ... summaries.push(...) } catch { continue }\<close> for each
  discovered run, in order.
\<close>

fun summarize ::
    "filesystem \<Rightarrow> (jsstring \<Rightarrow> json option) \<Rightarrow> jsstring \<Rightarrow> jsstring list \<Rightarrow> RunSummary list" where
  "summarize fs parse outputsRoot [] = []"
| "summarize fs parse outputsRoot (runDir # runDirs) =
     (case loadRunDetail fs parse runDir outputsRoot of
        Inl e \<Rightarrow> summarize fs parse outputsRoot runDirs
      | Inr runDetail \<Rightarrow> summaryOf runDir runDetail # summarize fs parse outputsRoot runDirs)"

definition listRunSummaries ::
    "filesystem \<Rightarrow> (jsstring \<Rightarrow> json option) \<Rightarrow> jsstring \<Rightarrow> failure + RunSummary list" where
  "listRunSummaries fs parse outputsRoot =
     (case discoverRunDirs fs outputsRoot of
        Inl e \<Rightarrow> Inl e
      | Inr runDirs \<Rightarrow> Inr (summarize fs parse outputsRoot runDirs))"

section \<open>The rejection policy as the specification words it\<close>

text \<open>
  The nine rules of the path sanitizer in the order of the specification, each with its
  rejection, and the evaluation the specification asks for: the first rule that holds
  of the trimmed candidate decides, and a candidate no rule holds of is returned
  normalized.
\<close>

definition sanitizer_rules :: "((jsstring \<Rightarrow> bool) \<times> rejection) list" where
  "sanitizer_rules =
     [(\<lambda>c. c = [], MustNotBeEmpty ''imagePath''),
      (\<lambda>c. includesUnit c 0, NullByte),
      (\<lambda>c. includesUnit c (cu CHR ''%''), EncodedChars),
      (\<lambda>c. includesUnit c (cu (CHR 0x5C)), Backslash),
      (\<lambda>c. posix_isAbsolute c \<or> win32_isAbsolute c, Absolute),
      (\<lambda>c. WINDOWS_DRIVE_LETTER_PREFIX c, DriveLetter),
      (\<lambda>c. list_ex (\<lambda>segment. segment = []) (split (cu CHR ''/'') c), EmptySegment),
      (\<lambda>c. lit ''.'' \<in> set (split (cu CHR ''/'') c) \<or> lit ''..'' \<in> set (split (cu CHR ''/'') c),
         DotSegment),
      (\<lambda>c. posix_normalize c = lit ''.'' \<or> startsWith (posix_normalize c) (lit ''../'')
            \<or> includesStr (posix_normalize c) (lit ''/../''), Escapes)]"

fun first_match :: "(('a \<Rightarrow> bool) \<times> 'e) list \<Rightarrow> 'a \<Rightarrow> 'e option" where
  "first_match [] c = None"
| "first_match ((rule, e) # rules) c = (if rule c then Some e else first_match rules c)"

definition sanitize_spec :: "jsstring \<Rightarrow> rejection + jsstring" where
  "sanitize_spec candidate =
     (case first_match sanitizer_rules (trim candidate) of
        Some e \<Rightarrow> Inl e
      | None \<Rightarrow> Inr (posix_normalize (trim candidate)))"

text \<open>
  The label rule of the specification for an X value: among the records that share the
  X index, the one whose Y index is lowest.
\<close>

fun lowestBy :: "(GridCell \<Rightarrow> int) \<Rightarrow> GridCell list \<Rightarrow> GridCell option" where
  "lowestBy other [] = None"
| "lowestBy other (c # cs) =
     (case lowestBy other cs of
        None \<Rightarrow> Some c
      | Some best \<Rightarrow> if other c \<le> other best then Some c else Some best)"

definition firstByX_spec :: "GridCell list \<Rightarrow> int \<Rightarrow> GridCell option" where
  "firstByX_spec records xIndex = lowestBy y_index (filter (\<lambda>c. x_index c = xIndex) records)"

section \<open>Example storage\<close>

text \<open>
  A storage root with five directories. \<open>run_a\<close> and \<open>run_d\<close> hold a descriptor with both
  identity fields, \<open>run_b\<close> matches the pattern of a run identifier and holds no
  descriptor, the descriptor of \<open>run_c\<close> lacks \<open>created_at\<close>, and \<open>notes\<close> is not a run.
  \<open>example_parse\<close> is \<open>JSON.parse\<close> on the texts of this storage.
\<close>

definition example_root :: jsstring where
  \<open>example_root = lit ''/srv/outputs''\<close>

definition run_a :: jsstring where
  \<open>run_a = lit ''run-20260217T072414Z''\<close>

definition run_b :: jsstring where
  \<open>run_b = lit ''run-20260218T101500Z''\<close>

definition run_c :: jsstring where
  \<open>run_c = lit ''run-20260219T000000Z''\<close>

definition run_d :: jsstring where
  \<open>run_d = lit ''run-20260220T000000Z''\<close>

definition notes_dir :: jsstring where
  \<open>notes_dir = lit ''notes''\<close>

definition descriptor_a :: jsstring where
  \<open>descriptor_a = lit ''{"run_id":"a","created_at":"t0","selection":{"x_indexes":[0,1],"y_indexes":[0]}}''\<close>

definition descriptor_c :: jsstring where
  \<open>descriptor_c = lit ''{"run_id":"c"}''\<close>

definition descriptor_d :: jsstring where
  \<open>descriptor_d = lit ''{"run_id":"d","created_at":"t3"}''\<close>

definition line_failed :: jsstring where
  \<open>line_failed = lit ''{"x_index":0,"y_index":0,"status":"failed"}''\<close>

definition line_success :: jsstring where
  \<open>line_success = lit ''{"x_index":0,"y_index":0,"status":"success"}''\<close>

definition line_missing :: jsstring where
  \<open>line_missing = lit ''{"x_index":1,"y_index":0,"status":"missing"}''\<close>

definition example_log :: jsstring where
  \<open>example_log = line_failed @ [10] @ line_success @ [10] @ line_missing @ [10]\<close>

definition example_parse :: "jsstring \<Rightarrow> json option" where
  \<open>example_parse text =
     (if text = descriptor_a then
        Some (JObject
          [(lit ''run_id'', JString (lit ''a'')),
           (lit ''created_at'', JString (lit ''t0'')),
           (lit ''selection'', JObject
              [(lit ''x_indexes'', JArray [JNumber (Finite 0), JNumber (Finite 1)]),
               (lit ''y_indexes'', JArray [JNumber (Finite 0)])])])
      else if text = descriptor_c then
        Some (JObject [(lit ''run_id'', JString (lit ''c''))])
      else if text = descriptor_d then
        Some (JObject
          [(lit ''run_id'', JString (lit ''d'')), (lit ''created_at'', JString (lit ''t3''))])
      else if text = line_failed then
        Some (JObject
          [(lit ''x_index'', JNumber (Finite 0)), (lit ''y_index'', JNumber (Finite 0)),
           (lit ''status'', JString (lit ''failed''))])
      else if text = line_success then
        Some (JObject
          [(lit ''x_index'', JNumber (Finite 0)), (lit ''y_index'', JNumber (Finite 0)),
           (lit ''status'', JString (lit ''success''))])
      else if text = line_missing then
        Some (JObject
          [(lit ''x_index'', JNumber (Finite 1)), (lit ''y_index'', JNumber (Finite 0)),
           (lit ''status'', JString (lit ''missing''))])
      else None)\<close>

definition example_fs :: filesystem where
  \<open>example_fs =
     \<lparr> readdir = (\<lambda>p. if p = example_root then
                          Returned
                            [\<lparr> name = run_a, isDirectory = True \<rparr>,
                             \<lparr> name = run_b, isDirectory = True \<rparr>,
                             \<lparr> name = notes_dir, isDirectory = True \<rparr>,
                             \<lparr> name = run_c, isDirectory = True \<rparr>,
                             \<lparr> name = run_d, isDirectory = True \<rparr>]
                        else ENOENT),
       stat = (\<lambda>p. if p = example_root @ lit ''/'' @ run_a @ lit ''/run.json''
                        \<or> p = example_root @ lit ''/'' @ run_c @ lit ''/run.json''
                        \<or> p = example_root @ lit ''/'' @ run_d @ lit ''/run.json''
                     then Returned \<lparr> isFile = True \<rparr> else ENOENT),
       readFile = (\<lambda>p. if p = example_root @ lit ''/'' @ run_a @ lit ''/run.json''
                           then Returned descriptor_a
                         else if p = example_root @ lit ''/'' @ run_c @ lit ''/run.json''
                           then Returned descriptor_c
                         else if p = example_root @ lit ''/'' @ run_d @ lit ''/run.json''
                           then Returned descriptor_d
                         else if p = example_root @ lit ''/'' @ run_a @ lit ''/metadata.jsonl''
                           then Returned example_log
                         else ENOENT) \<rparr>\<close>

text \<open>
  The cell that \<open>normalizeGridCell\<close> makes of a line that holds the two indexes and a
  status and nothing else, and a cell that also holds a \<open>quality\<close> attribute.
\<close>

definition bare_cell :: "int \<Rightarrow> int \<Rightarrow> CellStatus \<Rightarrow> GridCell" where
  "bare_cell xIndex yIndex st = (createMissingCell xIndex yIndex) \<lparr> status := st \<rparr>"

definition quality_cell :: "int \<Rightarrow> int \<Rightarrow> jsstring \<Rightarrow> GridCell" where
  "quality_cell xIndex yIndex q =
     (createMissingCell xIndex yIndex)
       \<lparr> status := lit ''success'',
         x_fields := \<lparr> quality = Some q, rating = None, gender = None, characters = None,
                       series = None, general = None \<rparr> \<rparr>"

text \<open>
  Paths of a process whose working directory is \<open>/srv\<close>: the relative root \<open>outputs\<close>
  with an image below it, and the filesystem root with the relative path \<open>a\<close>.
\<close>

definition example_cwd :: jsstring where
  \<open>example_cwd = lit ''/srv''\<close>

definition outputs_dir :: jsstring where
  \<open>outputs_dir = lit ''outputs''\<close>

definition outputs_abs :: jsstring where
  \<open>outputs_abs = lit ''/srv/outputs''\<close>

definition image_rel :: jsstring where
  \<open>image_rel = lit ''images/a.png''\<close>

definition image_abs :: jsstring where
  \<open>image_abs = lit ''/srv/outputs/images/a.png''\<close>

definition fs_root :: jsstring where
  \<open>fs_root = lit ''/''\<close>

definition rel_a :: jsstring where
  \<open>rel_a = lit ''a''\<close>

definition abs_a :: jsstring where
  \<open>abs_a = lit ''/a''\<close>

text \<open>
  Two Selection sub-records with the same index lists: one with explicit counts, one
  whose \<open>x_count\<close> is a string and whose other counts are absent.
\<close>

definition selection_explicit :: json where
  "selection_explicit = JObject
       [(lit ''x_indexes'', JArray [JNumber (Finite 0), JNumber (Finite 1)]),
        (lit ''y_indexes'', JArray [JNumber (Finite 0)]),
        (lit ''x_count'', JNumber (Finite 5)),
        (lit ''y_count'', JNumber (Finite 5)),
        (lit ''total_cells'', JNumber (Finite 5))]"

definition selection_implicit :: json where
  "selection_implicit = JObject
       [(lit ''x_indexes'', JArray [JNumber (Finite 0), JNumber (Finite 1)]),
        (lit ''y_indexes'', JArray [JNumber (Finite 0)]),
        (lit ''x_count'', JString (lit ''2''))]"

definition quality_A :: jsstring where
  \<open>quality_A = lit ''masterpiece''\<close>

definition quality_B :: jsstring where
  \<open>quality_B = lit ''best quality''\<close>

text \<open>The descriptor that holds the two index lists and nothing else but its identity.\<close>

definition example_detail :: "int list \<Rightarrow> int list \<Rightarrow> RunDetail" where
  "example_detail xs ys =
     \<lparr> run_id = lit ''a'',
       created_at = lit ''t0'',
       dry_run = False,
       run_dir = lit ''comfyui_api_outputs/run-20260217T072414Z'',
       x_csv_path = [],
       y_csv_path = [],
       x_csv_sha256 = [],
       y_csv_sha256 = [],
       template = [],
       base_seed = 0,
       seed_strategy = [],
       workflow_json_path = [],
       workflow_json_sha256 = [],
       workflow_status = [],
       selected_ksampler_node_id = None,
       comfyui_base_url = [],
       request_timeout_s = 0,
       job_timeout_s = 0,
       concurrency = 0,
       client_id = None,
       selection =
         \<lparr> x_indexes = xs, y_indexes = ys, x_count = int (length xs),
           y_count = int (length ys), total_cells = int (length xs) * int (length ys),
           x_limit = None, y_limit = None, x_indexes_raw = None, y_indexes_raw = None \<rparr>,
       generation_overrides =
         \<lparr> go_negative_prompt = None, go_width = None, go_height = None,
           go_batch_size = None, go_steps = None, go_cfg = None, go_denoise = None,
           go_sampler_name = None, go_scheduler = None \<rparr> \<rparr>"

section \<open>Properties of the string functions\<close>

lemma set_dropWhile_keep: "\<not> P c \<Longrightarrow> c \<in> set (dropWhile P xs) \<longleftrightarrow> c \<in> set xs"
  by (induction xs) auto

lemma set_trim_keep: "\<not> isWhiteSpace c \<Longrightarrow> c \<in> set (trim s) \<longleftrightarrow> c \<in> set s"
  by (simp add: trim_def set_dropWhile_keep)

lemma last_dropWhile_keep: "dropWhile P xs \<noteq> [] \<Longrightarrow> last (dropWhile P xs) = last xs"
  by (induction xs) (auto split: if_splits)

lemma trim_idem: "trim (trim s) = trim s"
proof -
  define a where "a = dropWhile isWhiteSpace s"
  define b where "b = dropWhile isWhiteSpace (rev a)"
  have t: "trim s = rev b" by (simp add: trim_def a_def b_def)
  have b_self: "dropWhile isWhiteSpace b = b"
    unfolding b_def by simp
  have "dropWhile isWhiteSpace (rev b) = rev b"
  proof (cases "b = []")
    case True
    then show ?thesis by simp
  next
    case False
    then have "last b = last (rev a)"
      unfolding b_def by (rule last_dropWhile_keep)
    moreover from False have "rev a \<noteq> []" unfolding b_def by auto
    ultimately have "last b = hd a" by (simp add: last_rev)
    moreover from \<open>rev a \<noteq> []\<close> have "\<not> isWhiteSpace (hd a)"
      unfolding a_def using hd_dropWhile by (metis rev_is_Nil_conv)
    ultimately have "\<not> isWhiteSpace (hd (rev b))"
      using False by (simp add: hd_rev)
    then show ?thesis
      by (simp add: dropWhile_eq_self_iff)
  qed
  then have "trim (rev b) = rev b"
    by (simp add: trim_def b_self)
  then show ?thesis
    by (simp add: t)
qed

lemma split_nonempty: "split sep s \<noteq> []"
  by (induction s) (auto simp: Let_def)

lemma join_Cons: "join sep ((c # s) # ss) = c # join sep (s # ss)"
  by (cases ss) auto

lemma join_Cons_hd: "ss \<noteq> [] \<Longrightarrow> join sep ((c # hd ss) # tl ss) = c # join sep ss"
  by (cases ss) (auto simp: join_Cons)

lemma join_split: "join sep (split sep s) = s"
proof (induction s)
  case Nil
  then show ?case by simp
next
  case (Cons c cs)
  show ?case
  proof (cases "c = sep")
    case True
    then show ?thesis using Cons split_nonempty[of sep cs]
      by (cases "split sep cs") auto
  next
    case False
    then show ?thesis using Cons split_nonempty[of sep cs]
      by (simp add: Let_def join_Cons_hd)
  qed
qed

lemma split_append_sep: "split sep (u @ sep # v) = split sep u @ split sep v"
  using split_nonempty[of sep] by (induction u) (auto simp: Let_def)

lemma last_split:
  assumes "last s = sep" and "s \<noteq> []"
  shows "last (split sep s) = []"
proof -
  from assms have "s = butlast s @ sep # []" by (metis append_butlast_last_id)
  then have "split sep s = split sep (butlast s) @ split sep []"
    by (metis split_append_sep)
  then show ?thesis by simp
qed

section \<open>Properties of the path sanitizer\<close>

lemma normalizeSegs_clean:
  "\<forall>seg \<in> set segs. seg \<noteq> [] \<and> seg \<noteq> lit ''.'' \<and> seg \<noteq> lit ''..'' \<Longrightarrow>
   normalizeSegs a st segs = rev st @ segs"
  by (induction segs arbitrary: st) auto

lemma posix_normalize_clean:
  assumes "\<forall>seg \<in> set (split (cu CHR ''/'') c). seg \<noteq> [] \<and> seg \<noteq> lit ''.'' \<and> seg \<noteq> lit ''..''"
  shows "posix_normalize c = c"
proof -
  let ?segs = "split (cu CHR ''/'') c"
  have no_empty: "[] \<notin> set ?segs" using assms by blast
  have ne: "c \<noteq> []"
  proof
    assume "c = []"
    then have "[] \<in> set ?segs" by simp
    with no_empty show False by simp
  qed
  have nabs: "\<not> posix_isAbsolute c"
  proof
    assume "posix_isAbsolute c"
    then obtain cs where "c = cu CHR ''/'' # cs"
      by (cases c) (simp_all add: posix_isAbsolute_def del: of_char_Char)
    then have "[] \<in> set ?segs" by (simp del: of_char_Char)
    with no_empty show False by simp
  qed
  have "normalizeSegs True [] ?segs = rev [] @ ?segs"
    using assms by (rule normalizeSegs_clean)
  then have ns: "normalizeString c True = c"
    by (simp add: normalizeString_def join_split del: of_char_Char)
  have ntr: "last c \<noteq> cu CHR ''/''"
  proof
    assume "last c = cu CHR ''/''"
    then have "last ?segs = []" using ne by (rule last_split)
    moreover have "last ?segs \<in> set ?segs"
      using split_nonempty by (rule last_in_set)
    ultimately show False using no_empty by simp
  qed
  show ?thesis
    unfolding posix_normalize_def Let_def using ne nabs ns ntr
    by (simp del: of_char_Char)
qed

lemma not_whitespace_units: "\<not> isWhiteSpace (cu CHR ''%'')" "\<not> isWhiteSpace 0"
  by (simp_all add: isWhiteSpace_def)

lemma sanitizer_trim: "assertSafeRelativeImagePath (trim p) = assertSafeRelativeImagePath p"
  by (simp add: assertSafeRelativeImagePath_def assertNonEmptyTrimmed_def trim_idem)

lemma sanitizer_accepts_trimmed:
  assumes "assertSafeRelativeImagePath p = Inr r"
  shows "r = trim p"
proof -
  let ?c = "trim p"
  have ne: "?c \<noteq> []" using assms
    by (auto simp add: assertSafeRelativeImagePath_def assertNonEmptyTrimmed_def)
  have *: "\<not> list_ex (\<lambda>segment. length segment = 0) (split (cu CHR ''/'') ?c)
     \<and> \<not> (lit ''.'' \<in> set (split (cu CHR ''/'') ?c) \<or> lit ''..'' \<in> set (split (cu CHR ''/'') ?c))
     \<and> r = posix_normalize ?c"
    using assms ne unfolding assertSafeRelativeImagePath_def assertNonEmptyTrimmed_def Let_def
    by (simp del: of_char_Char split: if_splits)
  then have "\<forall>seg \<in> set (split (cu CHR ''/'') ?c). seg \<noteq> [] \<and> seg \<noteq> lit ''.'' \<and> seg \<noteq> lit ''..''"
    unfolding list_ex_iff by (metis length_0_conv)
  then have "posix_normalize ?c = ?c" by (rule posix_normalize_clean)
  with * show ?thesis by simp
qed

text \<open>
  Claim C3. The path sanitizer evaluates the nine rejection rules in the order of the
  specification and the first rule that holds decides: \<open>assertSafeRelativeImagePath\<close> is
  \<open>sanitize_spec\<close>. In particular a candidate that is not empty or whitespace only,
  holds no null byte and holds a percent character is rejected with \<open>EncodedChars\<close>,
  whatever the later rules (backslash, absolute path, drive letter, segments,
  normalization) would say of it, and so is the candidate \<open>..%2fsecret\<close>.
\<close>

theorem sanitizer_first_match_order:
  "assertSafeRelativeImagePath p = sanitize_spec p \<and>
   (trim p \<noteq> [] \<and> \<not> includesUnit p 0 \<and> includesUnit p (cu CHR ''%'')
      \<longrightarrow> assertSafeRelativeImagePath p = Inl EncodedChars) \<and>
   assertSafeRelativeImagePath (lit ''..%2fsecret'') = Inl EncodedChars"
proof (intro conjI impI)
  show "assertSafeRelativeImagePath p = sanitize_spec p"
    by (simp add: assertSafeRelativeImagePath_def sanitize_spec_def sanitizer_rules_def
      assertNonEmptyTrimmed_def Let_def list_ex_iff)
next
  assume "trim p \<noteq> [] \<and> \<not> includesUnit p 0 \<and> includesUnit p (cu CHR ''%'')"
  then show "assertSafeRelativeImagePath p = Inl EncodedChars"
    using set_trim_keep[OF not_whitespace_units(1), of p]
      set_trim_keep[OF not_whitespace_units(2), of p]
    by (simp add: assertSafeRelativeImagePath_def assertNonEmptyTrimmed_def includesUnit_def
        del: of_char_Char)
next
  show "assertSafeRelativeImagePath (lit ''..%2fsecret'') = Inl EncodedChars"
    by (simp add: assertSafeRelativeImagePath_def assertNonEmptyTrimmed_def trim_def
        isWhiteSpace_def includesUnit_def)
qed

theorem sanitizer_first_match_order_witness:
  "trim (lit ''..%2f../a'') \<noteq> [] \<and> \<not> includesUnit (lit ''..%2f../a'') 0
   \<and> includesUnit (lit ''..%2f../a'') (cu CHR ''%'')
   \<and> assertSafeRelativeImagePath (lit ''..%2f../a'') = Inl EncodedChars"
proof -
  have h: "trim (lit ''..%2f../a'') \<noteq> [] \<and> \<not> includesUnit (lit ''..%2f../a'') 0
      \<and> includesUnit (lit ''..%2f../a'') (cu CHR ''%'')"
    by (simp add: trim_def isWhiteSpace_def includesUnit_def)
  with sanitizer_first_match_order[of "lit ''..%2f../a''"] show ?thesis by blast
qed

text \<open>
  Claim C9. On an input it accepts, the path sanitizer returns the input with the
  whitespace at both ends removed: the normalization at its end changes nothing. The
  sanitizer is therefore idempotent: it accepts its own result and returns it unchanged.
\<close>

theorem sanitizer_identity_idempotent:
  assumes "assertSafeRelativeImagePath p = Inr r"
  shows "r = trim p \<and> assertSafeRelativeImagePath r = Inr r"
proof -
  from assms have r: "r = trim p" by (rule sanitizer_accepts_trimmed)
  then have "assertSafeRelativeImagePath r = assertSafeRelativeImagePath p"
    by (simp add: sanitizer_trim)
  with assms r show ?thesis by simp
qed

theorem sanitizer_identity_idempotent_witness:
  "assertSafeRelativeImagePath (lit '' images/x0/y1.png  '') = Inr (lit ''images/x0/y1.png'')
   \<and> lit ''images/x0/y1.png'' = trim (lit '' images/x0/y1.png  '')
   \<and> assertSafeRelativeImagePath (lit ''images/x0/y1.png'') = Inr (lit ''images/x0/y1.png'')"
proof -
  have h: "assertSafeRelativeImagePath (lit '' images/x0/y1.png  '')
      = Inr (lit ''images/x0/y1.png'')"
    by (simp add: assertSafeRelativeImagePath_def assertNonEmptyTrimmed_def trim_def
        isWhiteSpace_def includesUnit_def posix_isAbsolute_def win32_isAbsolute_def
        isPathSeparator_def WINDOWS_DRIVE_LETTER_PREFIX_def isAsciiLetter_def Let_def
        posix_normalize_def normalizeString_def startsWith_def)
  from sanitizer_identity_idempotent[OF h] h show ?thesis by blast
qed

section \<open>Properties of the event log reader\<close>

lemma parseLines_append:
  "parseLines parse cs (ls @ ms) = parseLines parse (parseLines parse cs ls) ms"
  by (induction ls arbitrary: cs) (auto split: option.splits)

lemma parseLines_other_key:
  assumes "\<forall>line \<in> set ls. \<forall>c. parseLine parse line = Some c \<longrightarrow> toCellKey (x_index c) (y_index c) \<noteq> k"
  shows "map_of (parseLines parse cs ls) k = map_of cs k"
  using assms
proof (induction ls arbitrary: cs)
  case Nil
  then show ?case by simp
next
  case (Cons l ls)
  show ?case
  proof (cases "parseLine parse l")
    case None
    with Cons show ?thesis by simp
  next
    case (Some c)
    with Cons.prems have "toCellKey (x_index c) (y_index c) \<noteq> k" by simp
    moreover have "map_of (parseLines parse (AList.update (toCellKey (x_index c) (y_index c)) c cs) ls) k
        = map_of (AList.update (toCellKey (x_index c) (y_index c)) c cs) k"
      using Cons.prems by (intro Cons.IH) simp
    ultimately show ?thesis using Some by (simp add: update_conv')
  qed
qed

lemma parseLines_from_line:
  "(k, c) \<in> set (parseLines parse cs ls) \<Longrightarrow>
     (k, c) \<in> set cs \<or> (\<exists>line \<in> set ls. parseLine parse line = Some c)"
proof (induction ls arbitrary: cs)
  case Nil
  then show ?case by simp
next
  case (Cons l ls)
  show ?case
  proof (cases "parseLine parse l")
    case None
    with Cons show ?thesis by auto
  next
    case (Some c')
    with Cons.prems have "(k, c) \<in> set (parseLines parse (AList.update (toCellKey (x_index c') (y_index c')) c' cs) ls)"
      by simp
    then have "(k, c) \<in> set (AList.update (toCellKey (x_index c') (y_index c')) c' cs) \<or> (\<exists>line \<in> set ls. parseLine parse line = Some c)"
      by (rule Cons.IH)
    moreover have "set (AList.update (toCellKey (x_index c') (y_index c')) c' cs) \<subseteq> insert (toCellKey (x_index c') (y_index c'), c') (set cs)"
      by (induction cs) auto
    ultimately show ?thesis using Some by auto
  qed
qed

lemma trim_lines:
  "trim line_failed = line_failed" "trim line_success = line_success" "trim line_missing = line_missing"
  "trim [] = []"
  by (simp_all add: trim_def isWhiteSpace_def line_failed_def line_success_def line_missing_def)

lemmas coercion_defs = getProp_def toNullableInteger_def toNullableString_def toNullableNumber_def
  toStringArray_def normalizeCellStatus_def isCellStatus_def normalizeXFields_def
  normalizeGenerationParams_def isInteger_def

lemma normalizeGridCell_bare:
  "normalizeGridCell [(lit ''x_index'', JNumber (Finite (of_int x))), (lit ''y_index'', JNumber (Finite (of_int y))),
           (lit ''status'', JString st)] = Some (bare_cell x y (if isCellStatus st then st else lit ''failed''))"
  by (simp add: normalizeGridCell_def coercion_defs bare_cell_def createMissingCell_def)

lemma example_parse_lines:
  "example_parse line_failed = Some (JObject
          [(lit ''x_index'', JNumber (Finite 0)), (lit ''y_index'', JNumber (Finite 0)),
           (lit ''status'', JString (lit ''failed''))])"
  "example_parse line_success = Some (JObject
          [(lit ''x_index'', JNumber (Finite 0)), (lit ''y_index'', JNumber (Finite 0)),
           (lit ''status'', JString (lit ''success''))])"
  "example_parse line_missing = Some (JObject
          [(lit ''x_index'', JNumber (Finite 1)), (lit ''y_index'', JNumber (Finite 0)),
           (lit ''status'', JString (lit ''missing''))])"
  by (simp_all add: example_parse_def descriptor_a_def descriptor_c_def descriptor_d_def
      line_failed_def line_success_def line_missing_def)

lemma lines_nonempty: "line_failed \<noteq> []" "line_success \<noteq> []" "line_missing \<noteq> []"
  by (simp_all add: line_failed_def line_success_def line_missing_def)

lemma example_parseLine:
  "parseLine example_parse line_failed = Some (bare_cell 0 0 (lit ''failed''))"
  "parseLine example_parse line_success = Some (bare_cell 0 0 (lit ''success''))"
  "parseLine example_parse line_missing = Some (bare_cell 1 0 (lit ''missing''))"
  "parseLine example_parse [] = None"
  using normalizeGridCell_bare[of 0 0 "lit ''failed''"] normalizeGridCell_bare[of 0 0 "lit ''success''"]
    normalizeGridCell_bare[of 1 0 "lit ''missing''"]
  by (simp_all add: parseLine_def trim_lines lines_nonempty example_parse_lines parseJsonObject_def isCellStatus_def)


lemma example_metadata_path:
  "posix_join [example_root, run_a, METADATA_JSONL_FILENAME]
     = example_root @ lit ''/'' @ run_a @ lit ''/metadata.jsonl''"
  by (simp add: posix_join_def posix_normalize_def posix_isAbsolute_def normalizeString_def
      example_root_def run_a_def METADATA_JSONL_FILENAME_def Let_def)

lemma example_lines:
  "splitLines example_log = [line_failed] @ line_success # [line_missing, []]"
  by (simp add: example_log_def line_failed_def line_success_def line_missing_def)

lemma example_readFile_log:
  "readFile example_fs (posix_join [example_root, run_a, METADATA_JSONL_FILENAME]) = Returned example_log"
  unfolding example_metadata_path
  by (simp add: example_fs_def example_root_def run_a_def run_c_def run_d_def)

lemma bare_cell_sel: "x_index (bare_cell x y st) = x" "y_index (bare_cell x y st) = y"
  "status (bare_cell x y st) = st"
  by (simp_all add: bare_cell_def createMissingCell_def)

lemma example_cells:
  "parseMetadataJsonl example_fs example_parse run_a example_root
     = Inr [((0, 0), bare_cell 0 0 (lit ''success'')), ((1, 0), bare_cell 1 0 (lit ''missing''))]"
  by (simp add: parseMetadataJsonl_def example_readFile_log example_lines example_parseLine
      bare_cell_sel toCellKey_def)
text \<open>
  Claim C5. The event log is read last-write-wins by coordinate: when a line of the log
  parses to a record and no later line parses to a record of the same coordinate, the
  returned map holds that record at the coordinate, whatever earlier lines of the same
  coordinate held. With two lines of one coordinate and differing status, the record of
  the later line is the one stored.
\<close>

theorem event_log_last_write_wins:
  assumes "readFile fs (posix_join [outputsRoot, runDir, METADATA_JSONL_FILENAME]) = Returned raw"
    and "splitLines raw = before @ later # rest"
    and "parseLine parse later = Some cell"
    and "\<forall>line \<in> set rest. \<forall>c. parseLine parse line = Some c \<longrightarrow>
           toCellKey (x_index c) (y_index c) \<noteq> toCellKey (x_index cell) (y_index cell)"
  shows "\<exists>cs. parseMetadataJsonl fs parse runDir outputsRoot = Inr cs \<and>
           map_of cs (toCellKey (x_index cell) (y_index cell)) = Some cell"
proof -
  let ?k = "toCellKey (x_index cell) (y_index cell)"
  let ?mid = "parseLines parse [] before"
  have "parseLines parse [] (splitLines raw)
      = parseLines parse (AList.update ?k cell ?mid) rest"
    using assms(2,3) by (simp add: parseLines_append)
  moreover have "map_of (parseLines parse (AList.update ?k cell ?mid) rest) ?k
      = map_of (AList.update ?k cell ?mid) ?k"
    using assms(4) by (rule parseLines_other_key)
  ultimately have "map_of (parseLines parse [] (splitLines raw)) ?k = Some cell"
    by (simp add: update_conv')
  then show ?thesis using assms(1) by (simp add: parseMetadataJsonl_def)
qed



theorem event_log_last_write_wins_witness:
  "parseLine example_parse line_failed = Some (bare_cell 0 0 (lit ''failed'')) \<and>
   parseLine example_parse line_success = Some (bare_cell 0 0 (lit ''success'')) \<and>
   splitLines example_log = [line_failed] @ line_success # [line_missing, []] \<and>
   (\<exists>cs. parseMetadataJsonl example_fs example_parse run_a example_root = Inr cs \<and>
      map_of cs (0, 0) = Some (bare_cell 0 0 (lit ''success'')))"
proof -
  have later: "\<forall>line \<in> set [line_missing, []]. \<forall>c. parseLine example_parse line = Some c \<longrightarrow>
      toCellKey (x_index c) (y_index c)
        \<noteq> toCellKey (x_index (bare_cell 0 0 (lit ''success''))) (y_index (bare_cell 0 0 (lit ''success'')))"
    by (simp add: example_parseLine bare_cell_sel toCellKey_def)
  from event_log_last_write_wins[OF example_readFile_log example_lines example_parseLine(2) later]
  show ?thesis
    by (simp add: example_parseLine example_lines bare_cell_sel toCellKey_def)
qed

lemma normalizeCellStatus_cases:
  "isCellStatus (normalizeCellStatus v)"
  "normalizeCellStatus v = lit ''missing'' \<longleftrightarrow> v = Some (JString (lit ''missing''))"
  "(\<forall>s. v = Some (JString s) \<longrightarrow> \<not> isCellStatus s) \<Longrightarrow> normalizeCellStatus v = lit ''failed''"
  by (auto simp: normalizeCellStatus_def isCellStatus_def split: option.splits json.splits)

lemma normalizeGridCell_status:
  "normalizeGridCell obj = Some c \<Longrightarrow> status c = normalizeCellStatus (getProp obj ''status'')"
  by (auto simp: normalizeGridCell_def Let_def split: option.splits)

lemma parseLine_status:
  assumes "parseLine parse line = Some c"
  shows "\<exists>obj. parseJsonObject parse (trim line) = Some obj \<and>
           status c = normalizeCellStatus (getProp obj ''status'')"
  using assms
  by (auto simp: parseLine_def Let_def normalizeGridCell_status split: if_splits option.splits)

text \<open>
  Claim C6, as stated, fails: a log line whose status field is the string \<open>missing\<close> is
  read as a record of status \<open>missing\<close>, since \<open>isCellStatus\<close> accepts all four values
  of \<open>CellStatus\<close>.
\<close>

theorem event_log_status_missing_counterexample:
  "parseMetadataJsonl example_fs example_parse run_a example_root
     = Inr [((0, 0), bare_cell 0 0 (lit ''success'')), ((1, 0), bare_cell 1 0 (lit ''missing''))] \<and>
   status (bare_cell 1 0 (lit ''missing'')) = lit ''missing'' \<and>
   status (bare_cell 1 0 (lit ''missing'')) \<notin> {lit ''success'', lit ''failed'', lit ''skipped''}"
  by (simp add: example_cells bare_cell_sel)

text \<open>
  Claim C6, amended. Every record that \<open>parseMetadataJsonl\<close> returns is the record
  that \<open>parseLine\<close> reads from a line of the log, and its status is the normalized
  status field of that line: one of
  \<open>success\<close>, \<open>failed\<close>, \<open>skipped\<close> and \<open>missing\<close>; it is \<open>missing\<close> only when the
  status field of the line is the string \<open>missing\<close>; a status field that is absent or
  is not one of the four strings is read as \<open>failed\<close>, never as \<open>missing\<close>.
\<close>

theorem event_log_status_normalized:
  assumes "parseMetadataJsonl fs parse runDir outputsRoot = Inr cs" and "(k, c) \<in> set cs"
  shows "\<exists>raw line obj.
           readFile fs (posix_join [outputsRoot, runDir, METADATA_JSONL_FILENAME]) = Returned raw \<and>
           line \<in> set (splitLines raw) \<and>
           parseLine parse line = Some c \<and>
           parseJsonObject parse (trim line) = Some obj \<and>
           status c = normalizeCellStatus (getProp obj ''status'') \<and>
           status c \<in> {lit ''success'', lit ''failed'', lit ''skipped'', lit ''missing''} \<and>
           (status c = lit ''missing'' \<longleftrightarrow> getProp obj ''status'' = Some (JString (lit ''missing''))) \<and>
           ((\<forall>s. getProp obj ''status'' = Some (JString s) \<longrightarrow> \<not> isCellStatus s)
              \<longrightarrow> status c = lit ''failed'')"
proof -
  let ?path = "posix_join [outputsRoot, runDir, METADATA_JSONL_FILENAME]"
  from assms obtain raw where raw: "readFile fs ?path = Returned raw"
    and cs: "cs = parseLines parse [] (splitLines raw)"
    by (cases "readFile fs ?path") (auto simp: parseMetadataJsonl_def)
  from assms(2) cs have "(k, c) \<in> set [] \<or> (\<exists>line \<in> set (splitLines raw). parseLine parse line = Some c)"
    by (intro parseLines_from_line) simp
  then obtain line where line: "line \<in> set (splitLines raw)" "parseLine parse line = Some c"
    by auto
  from parseLine_status[OF line(2)] obtain obj where
    obj: "parseJsonObject parse (trim line) = Some obj"
      "status c = normalizeCellStatus (getProp obj ''status'')" by blast
  have "status c \<in> {lit ''success'', lit ''failed'', lit ''skipped'', lit ''missing''}"
    using normalizeCellStatus_cases(1)[of "getProp obj ''status''"] obj(2)
    by (auto simp: isCellStatus_def)
  with raw line obj normalizeCellStatus_cases(2,3)[of "getProp obj ''status''"]
  show ?thesis by metis
qed

theorem event_log_status_normalized_witness:
  "parseMetadataJsonl example_fs example_parse run_a example_root
     = Inr [((0, 0), bare_cell 0 0 (lit ''success'')), ((1, 0), bare_cell 1 0 (lit ''missing''))] \<and>
   ((1, 0), bare_cell 1 0 (lit ''missing''))
     \<in> set [((0, 0), bare_cell 0 0 (lit ''success'')), ((1, 0), bare_cell 1 0 (lit ''missing''))] \<and>
   (\<exists>raw line obj.
      readFile example_fs (posix_join [example_root, run_a, METADATA_JSONL_FILENAME]) = Returned raw \<and>
      line \<in> set (splitLines raw) \<and>
      parseLine example_parse line = Some (bare_cell 1 0 (lit ''missing'')) \<and>
      parseJsonObject example_parse (trim line) = Some obj \<and>
      status (bare_cell 1 0 (lit ''missing'')) = normalizeCellStatus (getProp obj ''status'') \<and>
      status (bare_cell 1 0 (lit ''missing''))
        \<in> {lit ''success'', lit ''failed'', lit ''skipped'', lit ''missing''} \<and>
      (status (bare_cell 1 0 (lit ''missing'')) = lit ''missing''
         \<longleftrightarrow> getProp obj ''status'' = Some (JString (lit ''missing''))) \<and>
      ((\<forall>s. getProp obj ''status'' = Some (JString s) \<longrightarrow> \<not> isCellStatus s)
         \<longrightarrow> status (bare_cell 1 0 (lit ''missing'')) = lit ''failed''))"
proof -
  have m: "((1, 0), bare_cell 1 0 (lit ''missing''))
     \<in> set [((0, 0), bare_cell 0 0 (lit ''success'')), ((1, 0), bare_cell 1 0 (lit ''missing''))]"
    by simp
  show ?thesis
    by (rule conjI[OF example_cells conjI[OF m event_log_status_normalized[OF example_cells m]]])
qed

section \<open>Properties of discovery and listing\<close>

lemma promiseAll_Inr: "promiseAll ps = Inr vs \<Longrightarrow> ps = map Inr vs"
  by (induction ps arbitrary: vs) (auto split: sum.splits)

lemma set_sortDescending: "set (sortDescending xs) = set xs"
  by (simp add: sortDescending_def)

lemma set_map_filter_id: "set (List.map_filter id vs) = {d. Some d \<in> set vs}"
  by (induction vs) (auto simp: List.map_filter_simps split: option.splits)

lemma assertAllowedRunDir_Inr_iff:
  "assertAllowedRunDir runDir allowed = Inr c \<longleftrightarrow>
     trim runDir \<noteq> [] \<and> isValidRunDir (trim runDir) \<and> trim runDir \<in> allowed \<and> c = trim runDir"
  by (auto simp: assertAllowedRunDir_def assertNonEmptyTrimmed_def Let_def)

lemma discoverRunDirs_member:
  assumes "discoverRunDirs fs outputsRoot = Inr runDirs"
  shows "d \<in> set runDirs \<longleftrightarrow>
     (\<exists>entries. readdir fs outputsRoot = Returned entries \<and>
        (\<exists>entry \<in> set entries. name entry = d \<and> isDirectory entry \<and> isValidRunDir d \<and>
           containsRunJson fs (posix_join [outputsRoot, d]) = Inr True))"
proof (cases "readdir fs outputsRoot")
  case (Returned entries)
  let ?cands = "filter (\<lambda>entry. isDirectory entry \<and> isValidRunDir (name entry)) entries"
  let ?f = "\<lambda>entry. case containsRunJson fs (posix_join [outputsRoot, name entry]) of
                         Inl e \<Rightarrow> Inl e
                       | Inr found \<Rightarrow> Inr (if \<not> found then None else Some (name entry))"
  from assms Returned obtain vs where all: "promiseAll (map ?f ?cands) = Inr vs"
    and rd: "runDirs = sortDescending (List.map_filter id vs)"
    by (auto simp: discoverRunDirs_def Let_def split: sum.splits)
  from all have m: "map ?f ?cands = map Inr vs" by (rule promiseAll_Inr)
  have "d \<in> set runDirs \<longleftrightarrow> Some d \<in> set vs"
    by (simp add: rd set_sortDescending set_map_filter_id)
  also have "\<dots> \<longleftrightarrow> Inr (Some d) \<in> set (map ?f ?cands)"
    unfolding m by auto
  also have "\<dots> \<longleftrightarrow> (\<exists>entry \<in> set entries. name entry = d \<and> isDirectory entry \<and> isValidRunDir d \<and>
           containsRunJson fs (posix_join [outputsRoot, d]) = Inr True)"
  proof
    assume "Inr (Some d) \<in> set (map ?f ?cands)"
    then show "\<exists>entry \<in> set entries. name entry = d \<and> isDirectory entry \<and> isValidRunDir d \<and>
           containsRunJson fs (posix_join [outputsRoot, d]) = Inr True"
      by (auto split: sum.splits if_splits)
  next
    assume "\<exists>entry \<in> set entries. name entry = d \<and> isDirectory entry \<and> isValidRunDir d \<and>
           containsRunJson fs (posix_join [outputsRoot, d]) = Inr True"
    then obtain entry where e: "entry \<in> set entries" "name entry = d" "isDirectory entry"
      "isValidRunDir d" "containsRunJson fs (posix_join [outputsRoot, d]) = Inr True" by blast
    then have c: "entry \<in> set ?cands" and fe: "?f entry = Inr (Some d)" by simp_all
    from c have "?f entry \<in> ?f ` set ?cands" by (rule imageI)
    then show "Inr (Some d) \<in> set (map ?f ?cands)" unfolding fe by simp
  qed
  finally show ?thesis using Returned by simp
next
  case ENOENT
  with assms show ?thesis by (simp add: discoverRunDirs_def)
next
  case Failed
  with assms show ?thesis by (simp add: discoverRunDirs_def)
qed

lemma containsRunJson_True_iff:
  "containsRunJson fs runPath = Inr True \<longleftrightarrow>
     (\<exists>file. stat fs (posix_join [runPath, RUN_JSON_FILENAME]) = Returned file \<and> isFile file)"
  by (auto simp: containsRunJson_def split: io.splits)

lemma example_run_json_path:
  "posix_join [posix_join [example_root, run_a], RUN_JSON_FILENAME] = example_root @ lit ''/'' @ run_a @ lit ''/run.json''"
  "posix_join [posix_join [example_root, run_b], RUN_JSON_FILENAME] = example_root @ lit ''/'' @ run_b @ lit ''/run.json''"
  "posix_join [posix_join [example_root, run_c], RUN_JSON_FILENAME] = example_root @ lit ''/'' @ run_c @ lit ''/run.json''"
  "posix_join [posix_join [example_root, run_d], RUN_JSON_FILENAME] = example_root @ lit ''/'' @ run_d @ lit ''/run.json''"
  by (simp_all add: posix_join_def posix_normalize_def posix_isAbsolute_def normalizeString_def
      example_root_def run_a_def run_b_def run_c_def run_d_def RUN_JSON_FILENAME_def Let_def)

lemma example_containsRunJson:
  "containsRunJson example_fs (posix_join [example_root, run_a]) = Inr True"
  "containsRunJson example_fs (posix_join [example_root, run_b]) = Inr False"
  "containsRunJson example_fs (posix_join [example_root, run_c]) = Inr True"
  "containsRunJson example_fs (posix_join [example_root, run_d]) = Inr True"
  unfolding containsRunJson_def example_run_json_path
  by (simp_all add: example_fs_def example_root_def run_a_def run_b_def run_c_def run_d_def)

lemma example_valid:
  "isValidRunDir run_a" "isValidRunDir run_b" "isValidRunDir run_c" "isValidRunDir run_d"
  "\<not> isValidRunDir notes_dir"
  by (simp_all add: isValidRunDir_def isDigit_def run_a_def run_b_def run_c_def run_d_def notes_dir_def)

lemma example_sorted: "sortDescending [run_a, run_c, run_d] = [run_d, run_c, run_a]"
  by (simp add: sortDescending_def run_a_def run_c_def run_d_def)

lemma example_discover:
  "discoverRunDirs example_fs example_root = Inr [run_d, run_c, run_a]"
proof -
  have "readdir example_fs example_root = Returned
                            [\<lparr> name = run_a, isDirectory = True \<rparr>,
                             \<lparr> name = run_b, isDirectory = True \<rparr>,
                             \<lparr> name = notes_dir, isDirectory = True \<rparr>,
                             \<lparr> name = run_c, isDirectory = True \<rparr>,
                             \<lparr> name = run_d, isDirectory = True \<rparr>]"
    by (simp add: example_fs_def)
  then show ?thesis
    unfolding discoverRunDirs_def
    by (simp add: example_valid example_containsRunJson List.map_filter_simps example_sorted)
qed


text \<open>
  Claim C2. With the allowlist that \<open>discoverRunDirs\<close> returns, \<open>assertAllowedRunDir\<close>
  accepts an identifier exactly when, trimmed, it is not empty, matches the pattern of a
  run identifier and is in the allowlist. A name is in the allowlist only when it
  matches the pattern and \<open>run.json\<close> exists as a regular file directly inside its
  directory; a directory without that file is not in the allowlist.
\<close>

theorem run_allowlist_membership:
  assumes "discoverRunDirs fs outputsRoot = Inr runDirs"
  shows "((\<exists>c. assertAllowedRunDir runDir (set runDirs) = Inr c) \<longleftrightarrow>
            trim runDir \<noteq> [] \<and> isValidRunDir (trim runDir) \<and> trim runDir \<in> set runDirs) \<and>
         (d \<in> set runDirs \<longrightarrow>
            isValidRunDir d \<and>
            (\<exists>file. stat fs (posix_join [posix_join [outputsRoot, d], RUN_JSON_FILENAME])
                       = Returned file \<and> isFile file)) \<and>
         (stat fs (posix_join [posix_join [outputsRoot, d], RUN_JSON_FILENAME]) = ENOENT
            \<longrightarrow> d \<notin> set runDirs)"
proof -
  have a: "(\<exists>c. assertAllowedRunDir runDir (set runDirs) = Inr c) \<longleftrightarrow>
            trim runDir \<noteq> [] \<and> isValidRunDir (trim runDir) \<and> trim runDir \<in> set runDirs"
    by (simp add: assertAllowedRunDir_Inr_iff)
  have b: "isValidRunDir d \<and>
            (\<exists>file. stat fs (posix_join [posix_join [outputsRoot, d], RUN_JSON_FILENAME])
                       = Returned file \<and> isFile file)" if "d \<in> set runDirs"
    using that discoverRunDirs_member[OF assms, of d] containsRunJson_True_iff by blast
  then have c: "d \<notin> set runDirs"
    if "stat fs (posix_join [posix_join [outputsRoot, d], RUN_JSON_FILENAME]) = ENOENT"
    using that by auto
  from a b c show ?thesis by blast
qed

theorem run_allowlist_membership_witness:
  "discoverRunDirs example_fs example_root = Inr [run_d, run_c, run_a] \<and>
   (\<exists>c. assertAllowedRunDir run_a (set [run_d, run_c, run_a]) = Inr c) \<and>
   isValidRunDir run_b \<and>
   stat example_fs (posix_join [posix_join [example_root, run_b], RUN_JSON_FILENAME]) = ENOENT \<and>
   run_b \<notin> set [run_d, run_c, run_a] \<and>
   \<not> (\<exists>c. assertAllowedRunDir run_b (set [run_d, run_c, run_a]) = Inr c)"
proof -
  have t: "trim run_a = run_a" "trim run_b = run_b"
    by (simp_all add: trim_def isWhiteSpace_def run_a_def run_b_def)
  have s: "stat example_fs (posix_join [posix_join [example_root, run_b], RUN_JSON_FILENAME]) = ENOENT"
    unfolding example_run_json_path
    by (simp add: example_fs_def example_root_def run_a_def run_b_def run_c_def run_d_def)
  have n: "run_a \<noteq> []" "run_b \<noteq> []" by (simp_all add: run_a_def run_b_def)
  from run_allowlist_membership[OF example_discover, of run_a run_b]
       run_allowlist_membership[OF example_discover, of run_b run_b]
  show ?thesis
    using s by (simp add: example_discover t n example_valid)
qed

lemma summarize_append:
  "summarize fs parse outputsRoot (ds @ es)
     = summarize fs parse outputsRoot ds @ summarize fs parse outputsRoot es"
  by (induction ds) (auto split: sum.splits)

lemma summarize_member:
  "d \<in> set ds \<Longrightarrow> loadRunDetail fs parse d outputsRoot = Inr rd \<Longrightarrow>
     summaryOf d rd \<in> set (summarize fs parse outputsRoot ds)"
  by (induction ds) (auto split: sum.splits)

lemma summarize_run_dirs:
  "map summary_run_dir (summarize fs parse outputsRoot ds)
     = filter (\<lambda>d. \<not> isl (loadRunDetail fs parse d outputsRoot)) ds"
  by (induction ds) (auto simp: summaryOf_def split: sum.splits)

lemma loadRunDetail_fails:
  "isl (loadRunDetail fs parse runDir outputsRoot) \<longleftrightarrow>
     (\<forall>raw. readFile fs (posix_join [outputsRoot, runDir, RUN_JSON_FILENAME]) = Returned raw \<longrightarrow>
        (\<forall>obj. parseJsonObject parse raw = Some obj \<longrightarrow>
           falsy (toNullableString (getProp obj ''run_id'')) \<or>
           falsy (toNullableString (getProp obj ''created_at''))))"
  by (auto simp: loadRunDetail_def rethrow_def normalizeRunDetail_def Let_def
      split: io.splits option.splits)


lemma example_descriptor_path:
  "posix_join [example_root, run_a, RUN_JSON_FILENAME] = example_root @ lit ''/'' @ run_a @ lit ''/run.json''"
  "posix_join [example_root, run_c, RUN_JSON_FILENAME] = example_root @ lit ''/'' @ run_c @ lit ''/run.json''"
  "posix_join [example_root, run_d, RUN_JSON_FILENAME] = example_root @ lit ''/'' @ run_d @ lit ''/run.json''"
  by (simp_all add: posix_join_def posix_normalize_def posix_isAbsolute_def normalizeString_def
      example_root_def run_a_def run_c_def run_d_def RUN_JSON_FILENAME_def Let_def)

lemma example_readFile_descriptor:
  "readFile example_fs (posix_join [example_root, run_a, RUN_JSON_FILENAME]) = Returned descriptor_a"
  "readFile example_fs (posix_join [example_root, run_c, RUN_JSON_FILENAME]) = Returned descriptor_c"
  "readFile example_fs (posix_join [example_root, run_d, RUN_JSON_FILENAME]) = Returned descriptor_d"
  unfolding example_descriptor_path
  by (simp_all add: example_fs_def example_root_def run_a_def run_c_def run_d_def)

lemma example_parse_descriptors:
  "parseJsonObject example_parse descriptor_a =
     Some [(lit ''run_id'', JString (lit ''a'')),
           (lit ''created_at'', JString (lit ''t0'')),
           (lit ''selection'', JObject
              [(lit ''x_indexes'', JArray [JNumber (Finite 0), JNumber (Finite 1)]),
               (lit ''y_indexes'', JArray [JNumber (Finite 0)])])]"
  "parseJsonObject example_parse descriptor_c = Some [(lit ''run_id'', JString (lit ''c''))]"
  "parseJsonObject example_parse descriptor_d =
     Some [(lit ''run_id'', JString (lit ''d'')), (lit ''created_at'', JString (lit ''t3''))]"
  by (simp_all add: parseJsonObject_def example_parse_def descriptor_a_def descriptor_c_def
      descriptor_d_def)

lemma example_load:
  "loadRunDetail example_fs example_parse run_c example_root = Inl MissingRunIdOrCreatedAt"
  "\<not> isl (loadRunDetail example_fs example_parse run_a example_root)"
  "\<not> isl (loadRunDetail example_fs example_parse run_d example_root)"
  by (simp_all add: loadRunDetail_def example_readFile_descriptor rethrow_def
      example_parse_descriptors normalizeRunDetail_def getProp_def toNullableString_def falsy_def)

text \<open>
  Claim C10. \<open>listRunSummaries\<close> tolerates a broken run: when the descriptor of one
  discovered run fails to load, for whatever reason (by \<open>loadRunDetail_fails\<close> the file
  cannot be read, is not the text of a JSON object, or lacks \<open>run_id\<close> or
  \<open>created_at\<close>), the listing still returns, that run is left out, and the summary of
  every other run whose descriptor loads is in the list, in the order of discovery.
\<close>

theorem listRunSummaries_skips_broken_run:
  assumes "discoverRunDirs fs outputsRoot = Inr (before @ bad # after)"
    and "loadRunDetail fs parse bad outputsRoot = Inl e"
  shows "\<exists>summaries.
           listRunSummaries fs parse outputsRoot = Inr summaries \<and>
           summaries = summarize fs parse outputsRoot before @ summarize fs parse outputsRoot after \<and>
           map summary_run_dir summaries
             = filter (\<lambda>d. \<not> isl (loadRunDetail fs parse d outputsRoot)) (before @ after) \<and>
           (\<forall>d \<in> set (before @ after). \<forall>rd. loadRunDetail fs parse d outputsRoot = Inr rd
              \<longrightarrow> summaryOf d rd \<in> set summaries)"
proof -
  let ?s = "summarize fs parse outputsRoot before @ summarize fs parse outputsRoot after"
  have "summarize fs parse outputsRoot (before @ bad # after) = ?s"
    using assms(2) by (simp add: summarize_append)
  then have l: "listRunSummaries fs parse outputsRoot = Inr ?s"
    using assms(1) by (simp add: listRunSummaries_def)
  have s: "?s = summarize fs parse outputsRoot (before @ after)"
    by (simp add: summarize_append)
  have m: "map summary_run_dir ?s
      = filter (\<lambda>d. \<not> isl (loadRunDetail fs parse d outputsRoot)) (before @ after)"
    unfolding s by (rule summarize_run_dirs)
  have a: "\<forall>d \<in> set (before @ after). \<forall>rd. loadRunDetail fs parse d outputsRoot = Inr rd
              \<longrightarrow> summaryOf d rd \<in> set ?s"
    unfolding s using summarize_member by blast
  from l m a show ?thesis by blast
qed

theorem listRunSummaries_skips_broken_run_witness:
  "discoverRunDirs example_fs example_root = Inr ([run_d] @ run_c # [run_a]) \<and>
   loadRunDetail example_fs example_parse run_c example_root = Inl MissingRunIdOrCreatedAt \<and>
   (\<exists>summaries.
      listRunSummaries example_fs example_parse example_root = Inr summaries \<and>
      map summary_run_dir summaries = [run_d, run_a])"
proof -
  have d: "discoverRunDirs example_fs example_root = Inr ([run_d] @ run_c # [run_a])"
    by (simp add: example_discover)
  from listRunSummaries_skips_broken_run[OF d example_load(1)]
  show ?thesis
    using d example_load by auto
qed

section \<open>Properties of the descriptor and the grid\<close>

text \<open>
  Claim C8, as stated, fails: an explicit \<open>x_count\<close> that is an integer is kept even
  when it differs from the length of the index list.
\<close>

theorem selection_counts_counterexample:
  "x_count (normalizeSelection (Some (JObject
       [(lit ''x_indexes'', JArray [JNumber (Finite 0), JNumber (Finite 1)]),
        (lit ''x_count'', JNumber (Finite 5))]))) = 5 \<and>
   x_indexes (normalizeSelection (Some (JObject
       [(lit ''x_indexes'', JArray [JNumber (Finite 0), JNumber (Finite 1)]),
        (lit ''x_count'', JNumber (Finite 5))]))) = [0, 1] \<and>
   x_count (normalizeSelection (Some (JObject
       [(lit ''x_indexes'', JArray [JNumber (Finite 0), JNumber (Finite 1)]),
        (lit ''x_count'', JNumber (Finite 5))])))
     \<noteq> int (length (x_indexes (normalizeSelection (Some (JObject
       [(lit ''x_indexes'', JArray [JNumber (Finite 0), JNumber (Finite 1)]),
        (lit ''x_count'', JNumber (Finite 5))])))))"
  by (simp add: normalizeSelection_def objectOrEmpty_def getProp_def toIntegerArray_def
      toNullableInteger_def isInteger_def List.map_filter_simps Let_def)

text \<open>
  Claim C8, amended. In the normalized Selection, \<open>x_count\<close> is the explicit \<open>x_count\<close>
  whenever that is an integer, whether or not it agrees with the list; it is the length
  of the normalized \<open>x_indexes\<close> when the explicit value is absent or is not an integer.
  The same holds of \<open>y_count\<close> with \<open>y_indexes\<close>, and of \<open>total_cells\<close> with the product of
  the two lengths.
\<close>

theorem selection_counts:
  "(toNullableInteger (getProp (objectOrEmpty v) ''x_count'') = None \<longrightarrow>
      x_count (normalizeSelection v) = int (length (x_indexes (normalizeSelection v)))) \<and>
   (toNullableInteger (getProp (objectOrEmpty v) ''x_count'') = Some n \<longrightarrow>
      x_count (normalizeSelection v) = n) \<and>
   (toNullableInteger (getProp (objectOrEmpty v) ''y_count'') = None \<longrightarrow>
      y_count (normalizeSelection v) = int (length (y_indexes (normalizeSelection v)))) \<and>
   (toNullableInteger (getProp (objectOrEmpty v) ''y_count'') = Some n \<longrightarrow>
      y_count (normalizeSelection v) = n) \<and>
   (toNullableInteger (getProp (objectOrEmpty v) ''total_cells'') = None \<longrightarrow>
      total_cells (normalizeSelection v)
        = int (length (x_indexes (normalizeSelection v)))
          * int (length (y_indexes (normalizeSelection v)))) \<and>
   (toNullableInteger (getProp (objectOrEmpty v) ''total_cells'') = Some n \<longrightarrow>
      total_cells (normalizeSelection v) = n)"
  by (simp add: normalizeSelection_def Let_def)

lemma example_selection_counts:
  "toNullableInteger (getProp (objectOrEmpty (Some selection_explicit)) ''x_count'') = Some 5"
  "toNullableInteger (getProp (objectOrEmpty (Some selection_explicit)) ''y_count'') = Some 5"
  "toNullableInteger (getProp (objectOrEmpty (Some selection_explicit)) ''total_cells'') = Some 5"
  "toNullableInteger (getProp (objectOrEmpty (Some selection_implicit)) ''x_count'') = None"
  "toNullableInteger (getProp (objectOrEmpty (Some selection_implicit)) ''y_count'') = None"
  "toNullableInteger (getProp (objectOrEmpty (Some selection_implicit)) ''total_cells'') = None"
  "x_indexes (normalizeSelection (Some selection_implicit)) = [0, 1]"
  "y_indexes (normalizeSelection (Some selection_implicit)) = [0]"
  by (simp_all add: selection_explicit_def selection_implicit_def objectOrEmpty_def getProp_def
      toNullableInteger_def isInteger_def normalizeSelection_def toIntegerArray_def
      List.map_filter_simps Let_def)

theorem selection_counts_witness:
  "toNullableInteger (getProp (objectOrEmpty (Some selection_explicit)) ''x_count'') = Some 5 \<and>
   toNullableInteger (getProp (objectOrEmpty (Some selection_explicit)) ''y_count'') = Some 5 \<and>
   toNullableInteger (getProp (objectOrEmpty (Some selection_explicit)) ''total_cells'') = Some 5 \<and>
   x_count (normalizeSelection (Some selection_explicit)) = 5 \<and>
   y_count (normalizeSelection (Some selection_explicit)) = 5 \<and>
   total_cells (normalizeSelection (Some selection_explicit)) = 5 \<and>
   toNullableInteger (getProp (objectOrEmpty (Some selection_implicit)) ''x_count'') = None \<and>
   toNullableInteger (getProp (objectOrEmpty (Some selection_implicit)) ''y_count'') = None \<and>
   toNullableInteger (getProp (objectOrEmpty (Some selection_implicit)) ''total_cells'') = None \<and>
   x_count (normalizeSelection (Some selection_implicit)) = 2 \<and>
   y_count (normalizeSelection (Some selection_implicit)) = 1 \<and>
   total_cells (normalizeSelection (Some selection_implicit)) = 2"
  using selection_counts[of "Some selection_explicit" 5]
    selection_counts[of "Some selection_implicit" 0]
  by (simp add: example_selection_counts)


lemma fillRow_distinct:
  "distinct (map fst g) \<Longrightarrow> distinct (map fst (fillRow cs y xs g))"
  by (induction xs arbitrary: g) (simp_all add: distinct_update)

lemma fillRow_keys:
  "fst ` set (fillRow cs y xs g) = fst ` set g \<union> (\<lambda>x. (x, y)) ` set xs"
  by (induction xs arbitrary: g) (auto simp: dom_update toCellKey_def)

lemma fillRow_map_of:
  "map_of (fillRow cs y xs g) (x', y')
     = (if x' \<in> set xs \<and> y' = y then Some (cellOrMissing cs x' y') else map_of g (x', y'))"
  by (induction xs arbitrary: g) (auto simp: update_conv' toCellKey_def)

lemma fillGrid_distinct:
  "distinct (map fst g) \<Longrightarrow> distinct (map fst (fillGrid cs ys xs g))"
  by (induction ys arbitrary: g) (simp_all add: fillRow_distinct)

lemma fillGrid_keys:
  "fst ` set (fillGrid cs ys xs g) = fst ` set g \<union> set xs \<times> set ys"
  by (induction ys arbitrary: g) (auto simp: fillRow_keys)

lemma fillGrid_map_of:
  "map_of (fillGrid cs ys xs g) (x', y')
     = (if x' \<in> set xs \<and> y' \<in> set ys then Some (cellOrMissing cs x' y') else map_of g (x', y'))"
  by (induction ys arbitrary: g) (auto simp: fillRow_map_of)

lemma cells_buildGridIndex:
  "cells (buildGridIndex numberToString runDetail cs)
     = fillGrid cs (y_indexes (selection runDetail)) (x_indexes (selection runDetail)) []"
  by (simp add: buildGridIndex_def Let_def split: prod.splits)

lemma counts_buildGridIndex:
  "grid_x_count (buildGridIndex numberToString runDetail cs) = int (length (x_indexes (selection runDetail)))"
  "grid_y_count (buildGridIndex numberToString runDetail cs) = int (length (y_indexes (selection runDetail)))"
  by (simp_all add: buildGridIndex_def Let_def split: prod.splits)

text \<open>
  Claim C4, as stated, fails: a descriptor whose X index list repeats an index declares
  \<open>x_count = 2\<close> and \<open>y_count = 1\<close>, and the cell mapping has one entry.
\<close>

theorem grid_rectangular_counterexample:
  "grid_x_count (buildGridIndex decimalString (example_detail [0, 0] [0]) []) = 2 \<and>
   grid_y_count (buildGridIndex decimalString (example_detail [0, 0] [0]) []) = 1 \<and>
   length (cells (buildGridIndex decimalString (example_detail [0, 0] [0]) [])) = 1"
  by (simp add: cells_buildGridIndex counts_buildGridIndex example_detail_def)

text \<open>
  Claim C4, amended. Whatever the record map holds, the cell mapping of the grid has
  each key once, its keys are the cross product of the declared X and Y index lists,
  and the cell at a coordinate is the record of the map there, or a \<open>missing\<close> cell when
  the map has none. Its size is the number of different X indexes times the number of
  different Y indexes; this is \<open>x_count * y_count\<close> of the grid when neither declared list
  repeats an index.
\<close>

theorem grid_rectangular:
  "distinct (map fst (cells (buildGridIndex numberToString runDetail cs))) \<and>
   fst ` set (cells (buildGridIndex numberToString runDetail cs))
     = set (x_indexes (selection runDetail)) \<times> set (y_indexes (selection runDetail)) \<and>
   (\<forall>x \<in> set (x_indexes (selection runDetail)). \<forall>y \<in> set (y_indexes (selection runDetail)).
      map_of (cells (buildGridIndex numberToString runDetail cs)) (toCellKey x y)
        = Some (case map_of cs (toCellKey x y) of Some c \<Rightarrow> c | None \<Rightarrow> createMissingCell x y)) \<and>
   length (cells (buildGridIndex numberToString runDetail cs))
     = card (set (x_indexes (selection runDetail))) * card (set (y_indexes (selection runDetail))) \<and>
   (distinct (x_indexes (selection runDetail)) \<and> distinct (y_indexes (selection runDetail)) \<longrightarrow>
      int (length (cells (buildGridIndex numberToString runDetail cs)))
        = grid_x_count (buildGridIndex numberToString runDetail cs) * grid_y_count (buildGridIndex numberToString runDetail cs))"
proof -
  let ?xs = "x_indexes (selection runDetail)" and ?ys = "y_indexes (selection runDetail)"
  let ?g = "cells (buildGridIndex numberToString runDetail cs)"
  have d: "distinct (map fst ?g)"
    unfolding cells_buildGridIndex by (rule fillGrid_distinct) simp
  have k: "fst ` set ?g = set ?xs \<times> set ?ys"
    unfolding cells_buildGridIndex by (simp add: fillGrid_keys)
  have m: "\<forall>x \<in> set ?xs. \<forall>y \<in> set ?ys. map_of ?g (toCellKey x y)
        = Some (case map_of cs (toCellKey x y) of Some c \<Rightarrow> c | None \<Rightarrow> createMissingCell x y)"
    unfolding cells_buildGridIndex by (simp add: fillGrid_map_of toCellKey_def cellOrMissing_def)
  have "length ?g = length (map fst ?g)" by simp
  also have "\<dots> = card (set (map fst ?g))" using d by (rule distinct_card[symmetric])
  also have "\<dots> = card (set ?xs \<times> set ?ys)" using k by simp
  also have "\<dots> = card (set ?xs) * card (set ?ys)" by (rule card_cartesian_product)
  finally have l: "length ?g = card (set ?xs) * card (set ?ys)" .
  have r: "int (length ?g) = grid_x_count (buildGridIndex numberToString runDetail cs) * grid_y_count (buildGridIndex numberToString runDetail cs)"
    if "distinct ?xs \<and> distinct ?ys"
    using that l by (simp add: counts_buildGridIndex distinct_card)
  from d k m l r show ?thesis by blast
qed


theorem grid_rectangular_witness:
  "distinct [0, 1 :: int] \<and> distinct [0 :: int] \<and>
   int (length (cells (buildGridIndex decimalString (example_detail [0, 1] [0])
          [((0, 0), bare_cell 0 0 (lit ''success''))])))
     = grid_x_count (buildGridIndex decimalString (example_detail [0, 1] [0])
          [((0, 0), bare_cell 0 0 (lit ''success''))])
       * grid_y_count (buildGridIndex decimalString (example_detail [0, 1] [0])
          [((0, 0), bare_cell 0 0 (lit ''success''))]) \<and>
   map_of (cells (buildGridIndex decimalString (example_detail [0, 1] [0])
          [((0, 0), bare_cell 0 0 (lit ''success''))])) (toCellKey 0 0)
     = Some (bare_cell 0 0 (lit ''success'')) \<and>
   map_of (cells (buildGridIndex decimalString (example_detail [0, 1] [0])
          [((0, 0), bare_cell 0 0 (lit ''success''))])) (toCellKey 1 0)
     = Some (createMissingCell 1 0)"
  using grid_rectangular[of decimalString "example_detail [0, 1] [0]" "[((0, 0), bare_cell 0 0 (lit ''success''))]"]
  by (simp add: example_detail_def toCellKey_def)

lemma map_of_setIfAbsent:
  "map_of (setIfAbsent k cell m) k'
     = (case map_of m k' of Some c \<Rightarrow> Some c | None \<Rightarrow> if k' = k then Some cell else None)"
  by (auto simp: setIfAbsent_def update_conv' split: option.splits)

lemma firstBy_lookup:
  "map_of (fst (firstBy vs (fx, fy))) x
     = (case map_of fx x of Some c \<Rightarrow> Some c | None \<Rightarrow> find (\<lambda>c. x_index c = x) vs)"
  "map_of (snd (firstBy vs (fx, fy))) y
     = (case map_of fy y of Some c \<Rightarrow> Some c | None \<Rightarrow> find (\<lambda>c. y_index c = y) vs)"
  by (induction vs arbitrary: fx fy) (auto simp: map_of_setIfAbsent split: option.splits)

lemma labels_buildGridIndex:
  "xLabels (buildGridIndex numberToString runDetail cs)
     = map (\<lambda>xIndex. formatXLabel numberToString (find (\<lambda>c. x_index c = xIndex) (map snd cs)) xIndex)
         (x_indexes (selection runDetail))"
  "yLabels (buildGridIndex numberToString runDetail cs)
     = map (\<lambda>yIndex. formatYLabel numberToString (find (\<lambda>c. y_index c = yIndex) (map snd cs)) yIndex)
         (y_indexes (selection runDetail))"
proof -
  obtain fx fy where f: "firstBy (map snd cs) ([], []) = (fx, fy)" by (cases "firstBy (map snd cs) ([], [])")
  have "map_of fx x = find (\<lambda>c. x_index c = x) (map snd cs)" for x
    using firstBy_lookup(1)[of "map snd cs" "[]" "[]" x] f by simp
  moreover have "map_of fy y = find (\<lambda>c. y_index c = y) (map snd cs)" for y
    using firstBy_lookup(2)[of "map snd cs" "[]" "[]" y] f by simp
  ultimately show
    "xLabels (buildGridIndex numberToString runDetail cs)
     = map (\<lambda>xIndex. formatXLabel numberToString (find (\<lambda>c. x_index c = xIndex) (map snd cs)) xIndex)
         (x_indexes (selection runDetail))"
    "yLabels (buildGridIndex numberToString runDetail cs)
     = map (\<lambda>yIndex. formatYLabel numberToString (find (\<lambda>c. y_index c = yIndex) (map snd cs)) yIndex)
         (y_indexes (selection runDetail))"
    by (simp_all add: buildGridIndex_def Let_def f)
qed

lemma map_filter_all_None: "(\<forall>x \<in> set xs. f x = None) \<Longrightarrow> List.map_filter f xs = []"
  by (induction xs) (simp_all add: List.map_filter_simps)

lemma formatXLabel_fallback:
  assumes "cell = None \<or> (\<exists>c. cell = Some c \<and> (\<forall>key \<in> set X_FIELDS_ORDER. trimmedTruthy (key (x_fields c)) = None))"
  shows "formatXLabel numberToString cell xIndex = cu CHR ''x'' # numberToString xIndex"
  using assms by (auto simp: formatXLabel_def map_filter_all_None simp del: of_char_Char)

lemma formatYLabel_fallback:
  assumes "cell = None \<or> (\<exists>c. cell = Some c \<and> trimmedTruthy (y_value c) = None)"
  shows "formatYLabel numberToString cell yIndex = cu CHR ''y'' # numberToString yIndex"
  using assms by (auto simp: formatYLabel_def simp del: of_char_Char)

lemma quality_cell_sel:
  "x_index (quality_cell x y q) = x" "y_index (quality_cell x y q) = y"
  "x_fields (quality_cell x y q) = \<lparr> quality = Some q, rating = None, gender = None,
      characters = None, series = None, general = None \<rparr>"
  "y_value (quality_cell x y q) = None"
  by (simp_all add: quality_cell_def createMissingCell_def)

lemma formatXLabel_quality:
  "trim q = q \<Longrightarrow> q \<noteq> [] \<Longrightarrow> formatXLabel numberToString (Some (quality_cell x y q)) i = q"
  by (simp add: formatXLabel_def quality_cell_sel X_FIELDS_ORDER_def trimmedTruthy_def
      List.map_filter_simps)

lemma trim_AB: "trim quality_A = quality_A" "trim quality_B = quality_B"
  "quality_A \<noteq> []" "quality_B \<noteq> []" "quality_A \<noteq> quality_B"
  by (simp_all add: trim_def isWhiteSpace_def quality_A_def quality_B_def)

text \<open>
  Claim C7, as stated, fails: the map holds the record of \<open>(0, 1)\<close> before that of
  \<open>(0, 0)\<close>, as a log does that recorded them in this order. The label of X index 0 is
  taken from the record of \<open>(0, 1)\<close>, the first in the order of the map, and not from
  the record of lowest Y index, \<open>(0, 0)\<close>, whose attribute differs.
\<close>

theorem grid_labels_counterexample:
  "xLabels (buildGridIndex decimalString (example_detail [0] [0, 1])
      [((0, 1), quality_cell 0 1 quality_A), ((0, 0), quality_cell 0 0 quality_B)]) = [quality_A] \<and>
   firstByX_spec (map snd
      [((0, 1), quality_cell 0 1 quality_A), ((0, 0), quality_cell 0 0 quality_B)]) 0
     = Some (quality_cell 0 0 quality_B) \<and>
   formatXLabel decimalString (Some (quality_cell 0 0 quality_B)) 0 = quality_B"
  by (simp add: labels_buildGridIndex example_detail_def quality_cell_sel firstByX_spec_def
      formatXLabel_quality trim_AB)



text \<open>
  Claim C7, amended. In \<open>buildGridIndex\<close> the record that gives the label of an X value is
  the first record, in the iteration order of the record map, whose X index is that
  value, and symmetrically for a Y value. When there is no such record, or none of its
  descriptive attributes is populated (for Y: its Y value), the label is the positional
  placeholder: \<open>x\<close> or \<open>y\<close> followed by the index as the Number-to-string conversion
  of the runtime prints it, whatever that conversion is.
\<close>

theorem grid_labels_first_in_map_order:
  "xLabels (buildGridIndex numberToString runDetail cs)
     = map (\<lambda>xIndex. formatXLabel numberToString (find (\<lambda>c. x_index c = xIndex) (map snd cs)) xIndex)
         (x_indexes (selection runDetail)) \<and>
   yLabels (buildGridIndex numberToString runDetail cs)
     = map (\<lambda>yIndex. formatYLabel numberToString (find (\<lambda>c. y_index c = yIndex) (map snd cs)) yIndex)
         (y_indexes (selection runDetail)) \<and>
   (cell = None \<or> (\<exists>c. cell = Some c \<and>
        (\<forall>key \<in> set X_FIELDS_ORDER. trimmedTruthy (key (x_fields c)) = None))
      \<longrightarrow> formatXLabel numberToString cell i = cu CHR ''x'' # numberToString i) \<and>
   (cell = None \<or> (\<exists>c. cell = Some c \<and> trimmedTruthy (y_value c) = None)
      \<longrightarrow> formatYLabel numberToString cell i = cu CHR ''y'' # numberToString i)"
  using labels_buildGridIndex[of numberToString runDetail cs]
    formatXLabel_fallback[of cell numberToString i] formatYLabel_fallback[of cell numberToString i]
  by blast

lemma decimalString_small: "decimalString 0 = lit ''0''" "decimalString 1 = lit ''1''"
  by (simp_all add: decimalString_def)

theorem grid_labels_first_in_map_order_witness:
  "xLabels (buildGridIndex decimalString (example_detail [0, 1] [0, 1])
      [((0, 1), quality_cell 0 1 quality_A), ((0, 0), quality_cell 0 0 quality_B)])
     = [quality_A, lit ''x1''] \<and>
   yLabels (buildGridIndex decimalString (example_detail [0, 1] [0, 1])
      [((0, 1), quality_cell 0 1 quality_A), ((0, 0), quality_cell 0 0 quality_B)])
     = [lit ''y0'', lit ''y1'']"
proof -
  let ?d = "example_detail [0, 1] [0, 1]"
  let ?cs = "[((0, 1), quality_cell 0 1 quality_A), ((0, 0), quality_cell 0 0 quality_B)]"
  note t0 = grid_labels_first_in_map_order[of decimalString ?d ?cs "Some (quality_cell 0 0 quality_B)" 0]
  note t1 = grid_labels_first_in_map_order[of decimalString ?d ?cs "None" 1]
  note t2 = grid_labels_first_in_map_order[of decimalString ?d ?cs "Some (quality_cell 0 1 quality_A)" 1]
  have sel: "x_indexes (selection ?d) = [0, 1]" "y_indexes (selection ?d) = [0, 1]"
    by (simp_all add: example_detail_def)
  have x1: "formatXLabel decimalString None 1 = lit ''x1''"
    using t1 by (simp add: decimalString_small)
  have y0: "formatYLabel decimalString (Some (quality_cell 0 0 quality_B)) 0 = lit ''y0''"
    using t0 by (simp add: quality_cell_sel trimmedTruthy_def decimalString_small)
  have y1: "formatYLabel decimalString (Some (quality_cell 0 1 quality_A)) 1 = lit ''y1''"
    using t2 by (simp add: quality_cell_sel trimmedTruthy_def decimalString_small)
  have x0: "formatXLabel decimalString (Some (quality_cell 0 1 quality_A)) 0 = quality_A"
    by (simp add: formatXLabel_quality trim_AB)
  from t1 have "xLabels (buildGridIndex decimalString ?d ?cs)
      = [formatXLabel decimalString (Some (quality_cell 0 1 quality_A)) 0, formatXLabel decimalString None 1]"
    and "yLabels (buildGridIndex decimalString ?d ?cs)
      = [formatYLabel decimalString (Some (quality_cell 0 0 quality_B)) 0,
         formatYLabel decimalString (Some (quality_cell 0 1 quality_A)) 1]"
    unfolding sel by (simp_all add: quality_cell_sel)
  then show ?thesis unfolding x0 x1 y0 y1 by simp
qed

section \<open>Properties of the root-scoped resolver\<close>

lemma startsWith_append: "startsWith s (p @ q) \<Longrightarrow> startsWith s p"
proof -
  assume "startsWith s (p @ q)"
  then have "take (length p + length q) s = p @ q" by (simp add: startsWith_def)
  then have "take (length p) (take (length p + length q) s) = p" by simp
  then show ?thesis by (simp add: startsWith_def min_def)
qed

lemma confined_guard:
  "(t \<noteq> r \<and> \<not> startsWith t (if endsWith r [path_sep] then r else r @ [path_sep]))
     \<longleftrightarrow> \<not> confined r t"
proof (cases "endsWith r [path_sep]")
  case True
  have "startsWith t (r @ [path_sep]) \<Longrightarrow> startsWith t r" by (rule startsWith_append)
  with True show ?thesis unfolding confined_def by auto
next
  case False
  then show ?thesis unfolding confined_def by simp
qed

lemma resolvePathUnderRoot_cases:
  assumes "trim rootPath \<noteq> []" and "assertSafeRelativeImagePath relPath = Inr rel"
  shows "resolvePathUnderRoot cwd rootPath relPath =
     (let resolvedRoot = posix_resolve cwd [trim rootPath];
          resolvedTarget = posix_resolve cwd [resolvedRoot, rel]
      in if confined (toComparablePath resolvedRoot) (toComparablePath resolvedTarget)
         then Inr resolvedTarget else Inl RootEscape)"
proof -
  let ?R = "posix_resolve cwd [trim rootPath]"
  let ?T = "posix_resolve cwd [?R, rel]"
  have "resolvePathUnderRoot cwd rootPath relPath =
      (if toComparablePath ?T \<noteq> toComparablePath ?R \<and>
          \<not> startsWith (toComparablePath ?T)
              (if endsWith (toComparablePath ?R) [path_sep] then toComparablePath ?R
               else toComparablePath ?R @ [path_sep])
       then Inl RootEscape else Inr ?T)"
    using assms by (simp add: resolvePathUnderRoot_def assertNonEmptyTrimmed_def Let_def)
  then show ?thesis
    unfolding confined_guard Let_def by simp
qed

lemma resolvePathUnderRoot_InrD:
  assumes "resolvePathUnderRoot cwd rootPath relPath = Inr target"
  shows "trim rootPath \<noteq> [] \<and> (\<exists>rel. assertSafeRelativeImagePath relPath = Inr rel \<and>
           target = posix_resolve cwd [posix_resolve cwd [trim rootPath], rel])"
  using assms
  by (auto simp: resolvePathUnderRoot_def assertNonEmptyTrimmed_def Let_def
      split: if_splits sum.splits)

lemma resolveArgs_absolute:
  "posix_isAbsolute cwd \<Longrightarrow> snd (resolveArgs (ps @ [cwd]) acc isAbs)"
proof (induction ps arbitrary: acc isAbs)
  case Nil
  then have "cwd \<noteq> []" by (auto simp: posix_isAbsolute_def)
  with Nil show ?case by simp
next
  case (Cons p ps)
  then show ?case by simp
qed


lemma normalizeSegs_step:
  "\<exists>st'. normalizeSegs a st (seg # segs) = normalizeSegs a st' segs \<and>
         set st' \<subseteq> set st \<union> ({seg} - {[]})"
proof (cases "seg = [] \<or> seg = lit ''.''")
  case True
  then have "normalizeSegs a st (seg # segs) = normalizeSegs a st segs"
    by (simp del: of_char_Char)
  then show ?thesis by blast
next
  case False
  then have ne: "seg \<noteq> []" by simp
  show ?thesis
  proof (cases "seg = lit ''..''")
    case False
    with \<open>\<not> (seg = [] \<or> seg = lit ''.'')\<close>
    have "normalizeSegs a st (seg # segs) = normalizeSegs a (seg # st) segs"
      by (simp del: of_char_Char)
    moreover have "set (seg # st) \<subseteq> set st \<union> ({seg} - {[]})" using ne by auto
    ultimately show ?thesis by blast
  next
    case True
    have "normalizeSegs a st (seg # segs) = normalizeSegs a st segs \<or>
          normalizeSegs a st (seg # segs) = normalizeSegs a (tl st) segs \<or>
          normalizeSegs a st (seg # segs) = normalizeSegs a (seg # st) segs"
      using True by (cases st) (simp_all)
    moreover have "set (tl st) \<subseteq> set st \<union> ({seg} - {[]})"
      by (cases st) auto
    moreover have "set (seg # st) \<subseteq> set st \<union> ({seg} - {[]})" using ne by auto
    moreover have "set st \<subseteq> set st \<union> ({seg} - {[]})" by auto
    ultimately show ?thesis by metis
  qed
qed

lemma normalizeSegs_subset:
  "set (normalizeSegs a st segs) \<subseteq> set st \<union> (set segs - {[]})"
proof (induction segs arbitrary: st)
  case Nil
  then show ?case by simp
next
  case (Cons seg segs)
  from normalizeSegs_step[of a st seg segs] obtain st' where
    s: "normalizeSegs a st (seg # segs) = normalizeSegs a st' segs"
      "set st' \<subseteq> set st \<union> ({seg} - {[]})" by blast
  from Cons.IH[of st'] s show ?case by auto
qed

lemma split_no_sep: "seg \<in> set (split sep s) \<Longrightarrow> sep \<notin> set seg"
proof (induction s arbitrary: seg)
  case Nil
  then show ?case by simp
next
  case (Cons c cs)
  show ?case
  proof (cases "c = sep")
    case True
    with Cons show ?thesis by auto
  next
    case False
    have ne: "split sep cs \<noteq> []" by (rule split_nonempty)
    from Cons.prems False have "seg = c # hd (split sep cs) \<or> seg \<in> set (tl (split sep cs))"
      by (simp add: Let_def)
    moreover have "hd (split sep cs) \<in> set (split sep cs)" using ne by simp
    moreover have "set (tl (split sep cs)) \<subseteq> set (split sep cs)"
      using ne by (meson list.set_sel(2) subsetI)
    ultimately show ?thesis using Cons.IH False by auto
  qed
qed

lemma last_join:
  "segs \<noteq> [] \<Longrightarrow> [] \<notin> set segs \<Longrightarrow> join sep segs \<noteq> [] \<and> last (join sep segs) = last (last segs)"
  by (induction sep segs rule: join.induct) auto

lemma normalizeString_no_trailing:
  assumes "normalizeString p a \<noteq> []"
  shows "last (normalizeString p a) \<noteq> cu CHR ''/''"
proof -
  let ?segs = "normalizeSegs a [] (split (cu CHR ''/'') p)"
  from assms have ne: "?segs \<noteq> []" by (auto simp: normalizeString_def)
  have sub: "set ?segs \<subseteq> set (split (cu CHR ''/'') p) - {[]}"
    using normalizeSegs_subset[of a "[]" "split (cu CHR ''/'') p"] by simp
  then have e: "[] \<notin> set ?segs" by blast
  from ne have "last ?segs \<in> set ?segs" by (rule last_in_set)
  with sub have l: "last ?segs \<in> set (split (cu CHR ''/'') p)" "last ?segs \<noteq> []" by blast+
  from l(1) have ns: "cu CHR ''/'' \<notin> set (last ?segs)" by (rule split_no_sep)
  from l(2) have "last (last ?segs) \<in> set (last ?segs)" by (rule last_in_set)
  with ns have "last (last ?segs) \<noteq> cu CHR ''/''" by metis
  then show ?thesis
    using last_join[OF ne e] by (simp add: normalizeString_def del: of_char_Char)
qed

lemma posix_resolve_root_form:
  assumes "posix_isAbsolute cwd"
  shows "endsWith (posix_resolve cwd args) [path_sep] \<longleftrightarrow> posix_resolve cwd args = lit ''/''"
proof -
  obtain rp ra where r: "resolveArgs (rev args @ [cwd]) [] False = (rp, ra)"
    by (cases "resolveArgs (rev args @ [cwd]) [] False")
  from resolveArgs_absolute[OF assms, of "rev args" "[]" False] r have ra by simp
  let ?q = "normalizeString rp False"
  have pr: "posix_resolve cwd args = cu CHR ''/'' # ?q"
    using r \<open>ra\<close> by (simp add: posix_resolve_def del: of_char_Char)
  show ?thesis
  proof (cases "?q = []")
    case True
    then show ?thesis by (simp add: pr endsWith_def path_sep_def)
  next
    case False
    then have "last ?q \<noteq> cu CHR ''/''" by (rule normalizeString_no_trailing)
    with False have "last (cu CHR ''/'' # ?q) \<noteq> cu CHR ''/''" by simp
    moreover have "endsWith s [c] \<longleftrightarrow> s \<noteq> [] \<and> last s = c" for s :: jsstring and c
      by (cases s rule: rev_cases) (auto simp: endsWith_def)
    ultimately show ?thesis using False
      unfolding pr by (simp add: path_sep_def del: of_char_Char)
  qed
qed



lemma example_resolve:
  "posix_resolve example_cwd [fs_root] = fs_root"
  "posix_resolve example_cwd [fs_root, rel_a] = abs_a"
  "posix_resolve example_cwd [outputs_dir] = outputs_abs"
  "posix_resolve example_cwd [outputs_abs, image_rel] = image_abs"
  by (simp_all add: posix_resolve_def normalizeString_def posix_isAbsolute_def
      example_cwd_def fs_root_def rel_a_def abs_a_def outputs_dir_def outputs_abs_def
      image_rel_def image_abs_def)

lemma example_sanitized:
  "assertSafeRelativeImagePath rel_a = Inr rel_a"
  "assertSafeRelativeImagePath image_rel = Inr image_rel"
  by (simp_all add: assertSafeRelativeImagePath_def assertNonEmptyTrimmed_def trim_def
        isWhiteSpace_def includesUnit_def posix_isAbsolute_def win32_isAbsolute_def
        isPathSeparator_def WINDOWS_DRIVE_LETTER_PREFIX_def isAsciiLetter_def Let_def
        posix_normalize_def normalizeString_def startsWith_def rel_a_def image_rel_def)

lemma example_trim_roots: "trim fs_root = fs_root" "trim outputs_dir = outputs_dir"
  "fs_root \<noteq> []" "outputs_dir \<noteq> []"
  by (simp_all add: trim_def isWhiteSpace_def fs_root_def outputs_dir_def)

lemma example_comparable:
  "comparableRoot example_cwd fs_root = fs_root"
  "comparableRoot example_cwd outputs_dir = outputs_abs"
  by (simp_all add: comparableRoot_def toComparablePath_def example_trim_roots example_resolve)

lemma example_prefixes:
  "abs_a \<noteq> fs_root"
  "\<not> startsWith abs_a (fs_root @ [path_sep])"
  "endsWith fs_root [path_sep]"
  "startsWith abs_a fs_root"
  "startsWith image_abs (outputs_abs @ [path_sep])"
  "\<not> endsWith outputs_abs [path_sep]"
  by (simp_all add: startsWith_def endsWith_def path_sep_def abs_a_def fs_root_def
      image_abs_def outputs_abs_def)

text \<open>
  Claim C1, as stated, fails for the filesystem root: with the root \<open>/\<close> the path \<open>a\<close>
  is accepted and resolves to \<open>/a\<close>, which is not the root's form \<open>/\<close> and does not
  begin with that form followed by a separator, \<open>//\<close>.
\<close>

theorem resolved_path_confined_counterexample:
  "resolvePathUnderRoot example_cwd fs_root rel_a = Inr abs_a \<and>
   comparableRoot example_cwd fs_root = fs_root \<and>
   toComparablePath abs_a \<noteq> comparableRoot example_cwd fs_root \<and>
   \<not> startsWith (toComparablePath abs_a) (comparableRoot example_cwd fs_root @ [path_sep])"
  by (simp add: resolvePathUnderRoot_def assertNonEmptyTrimmed_def example_trim_roots
      example_sanitized example_resolve example_comparable example_prefixes
      toComparablePath_def Let_def)

text \<open>
  Claim C1, amended. When \<open>resolvePathUnderRoot\<close> returns a path, the comparable form of
  that path is the comparable form of the root, or begins with the root's form followed
  by the separator, or the root's form already ends with the separator and the path
  begins with it; with an absolute working directory the last case is the root \<open>/\<close>
  alone. For a root that is not empty and a relative path that the sanitizer accepts,
  the function returns the resolved path when this test holds and rejects with
  \<open>RootEscape\<close> in every other case.
\<close>

theorem resolved_path_confined:
  "(resolvePathUnderRoot cwd rootPath relPath = Inr target \<longrightarrow>
      toComparablePath target = comparableRoot cwd rootPath \<or>
      startsWith (toComparablePath target) (comparableRoot cwd rootPath @ [path_sep]) \<or>
      (endsWith (comparableRoot cwd rootPath) [path_sep] \<and>
       startsWith (toComparablePath target) (comparableRoot cwd rootPath))) \<and>
   (trim rootPath \<noteq> [] \<and> assertSafeRelativeImagePath relPath = Inr rel \<longrightarrow>
      resolvePathUnderRoot cwd rootPath relPath =
        (if confined (comparableRoot cwd rootPath)
              (toComparablePath (posix_resolve cwd [posix_resolve cwd [trim rootPath], rel]))
         then Inr (posix_resolve cwd [posix_resolve cwd [trim rootPath], rel])
         else Inl RootEscape)) \<and>
   (posix_isAbsolute cwd \<longrightarrow>
      (endsWith (comparableRoot cwd rootPath) [path_sep]
         \<longleftrightarrow> comparableRoot cwd rootPath = lit ''/''))"
proof (intro conjI impI)
  assume a: "resolvePathUnderRoot cwd rootPath relPath = Inr target"
  from resolvePathUnderRoot_InrD[OF a] obtain rel' where
    r: "trim rootPath \<noteq> []" "assertSafeRelativeImagePath relPath = Inr rel'"
      "target = posix_resolve cwd [posix_resolve cwd [trim rootPath], rel']" by blast
  from resolvePathUnderRoot_cases[OF r(1,2), of cwd] a r(3)
  have "confined (comparableRoot cwd rootPath) (toComparablePath target)"
    by (simp add: Let_def comparableRoot_def split: if_splits)
  then show "toComparablePath target = comparableRoot cwd rootPath \<or>
      startsWith (toComparablePath target) (comparableRoot cwd rootPath @ [path_sep]) \<or>
      (endsWith (comparableRoot cwd rootPath) [path_sep] \<and>
       startsWith (toComparablePath target) (comparableRoot cwd rootPath))"
    by (simp add: confined_def)
next
  assume "trim rootPath \<noteq> [] \<and> assertSafeRelativeImagePath relPath = Inr rel"
  then show "resolvePathUnderRoot cwd rootPath relPath =
        (if confined (comparableRoot cwd rootPath)
              (toComparablePath (posix_resolve cwd [posix_resolve cwd [trim rootPath], rel]))
         then Inr (posix_resolve cwd [posix_resolve cwd [trim rootPath], rel])
         else Inl RootEscape)"
    using resolvePathUnderRoot_cases[of rootPath relPath rel cwd]
    by (simp add: Let_def comparableRoot_def)
next
  assume "posix_isAbsolute cwd"
  then show "endsWith (comparableRoot cwd rootPath) [path_sep]
         \<longleftrightarrow> comparableRoot cwd rootPath = lit ''/''"
    unfolding comparableRoot_def toComparablePath_def by (rule posix_resolve_root_form)
qed

theorem resolved_path_confined_witness:
  "resolvePathUnderRoot example_cwd outputs_dir image_rel = Inr image_abs \<and>
   comparableRoot example_cwd outputs_dir = outputs_abs \<and>
   startsWith (toComparablePath image_abs) (comparableRoot example_cwd outputs_dir @ [path_sep]) \<and>
   posix_isAbsolute example_cwd \<and>
   \<not> endsWith (comparableRoot example_cwd outputs_dir) [path_sep] \<and>
   resolvePathUnderRoot example_cwd fs_root rel_a = Inr abs_a \<and>
   endsWith (comparableRoot example_cwd fs_root) [path_sep] \<and>
   startsWith (toComparablePath abs_a) (comparableRoot example_cwd fs_root)"
proof -
  have h: "trim outputs_dir \<noteq> [] \<and> assertSafeRelativeImagePath image_rel = Inr image_rel"
    "trim fs_root \<noteq> [] \<and> assertSafeRelativeImagePath rel_a = Inr rel_a"
    by (simp_all add: example_trim_roots example_sanitized)
  have a: "posix_isAbsolute example_cwd" by (simp add: posix_isAbsolute_def example_cwd_def)
  note t = resolved_path_confined[of example_cwd outputs_dir image_rel image_abs image_rel]
  note u = resolved_path_confined[of example_cwd fs_root rel_a abs_a rel_a]
  from t h(1) have r: "resolvePathUnderRoot example_cwd outputs_dir image_rel = Inr image_abs"
    by (simp add: example_trim_roots example_resolve example_comparable example_prefixes
        confined_def toComparablePath_def)
  from u h(2) have r': "resolvePathUnderRoot example_cwd fs_root rel_a = Inr abs_a"
    by (simp add: example_trim_roots example_resolve example_comparable example_prefixes
        confined_def toComparablePath_def)
  show ?thesis using r r' a
    by (simp add: example_comparable example_prefixes toComparablePath_def)
qed

end
